theory Spec2Isabelle
  imports Complex_Main
begin

section \<open>Python and numpy primitives used by the simulator\<close>

text \<open>
  Timestamps are minute-aligned, so a \<open>datetime\<close> is modelled as the number of minutes
  since a fixed epoch (an \<open>int\<close>), a \<open>date\<close> as a day number, and a numpy array of
  floats as a list of reals.  The binary64 rounding of Python and numpy is modelled in
  the battery policies, where a rounded quotient decides a number of slots (section
  Binary64 arithmetic); elsewhere the arithmetic is exact.  Every exception the modelled
  code can raise is a value of \<open>error\<close>; \<open>NonFinite\<close> is not an exception: it marks a
  numpy division by zero, whose \<open>inf\<close> or \<open>nan\<close> a real number cannot stand for.
\<close>

datatype error =
  ValueError | IndexError | ZeroDivisionError | KeyError | OverflowError | NonFinite

type_synonym datetime = int

text \<open>\<open>utils.minutesBetween\<close>: the minutes from \<open>startDT\<close> to \<open>endDT\<close> (negative when
  \<open>endDT\<close> is earlier).\<close>

definition minutesBetween :: "datetime \<Rightarrow> datetime \<Rightarrow> int" where
  "minutesBetween startDT endDT = endDT - startDT"

text \<open>The position a Python slice bound \<open>i\<close> denotes in a sequence of length \<open>n\<close>:
  a negative bound counts from the end, and every bound is clipped to \<open>[0, n]\<close>.\<close>

definition slice_index :: "nat \<Rightarrow> int \<Rightarrow> nat" where
  "slice_index n i = (if i < 0 then nat (max 0 (int n + i)) else min n (nat i))"

text \<open>\<open>xs[a:b]\<close>.\<close>

definition py_slice :: "'a list \<Rightarrow> int \<Rightarrow> int \<Rightarrow> 'a list" where
  "py_slice xs a b =
     (let lo = slice_index (length xs) a; hi = slice_index (length xs) b
      in take (hi - lo) (drop lo xs))"

text \<open>\<open>numpy.zeros(n)\<close>: a negative size raises \<open>ValueError\<close>.\<close>

definition np_zeros :: "int \<Rightarrow> error + real list" where
  "np_zeros n = (if n < 0 then Inl ValueError else Inr (replicate (nat n) 0))"

text \<open>\<open>xs[a:b] = src\<close> on a one-dimensional array: \<open>src\<close> must have the length of the
  slice, or length one (it is then broadcast); anything else raises \<open>ValueError\<close>.\<close>

definition np_assign_slice :: "'a list \<Rightarrow> int \<Rightarrow> int \<Rightarrow> 'a list \<Rightarrow> error + 'a list" where
  "np_assign_slice xs a b src =
     (let lo = slice_index (length xs) a; hi = slice_index (length xs) b; m = hi - lo
      in if length src = m then Inr (take lo xs @ src @ drop (lo + m) xs)
         else if length src = 1 then Inr (take lo xs @ replicate m (hd src) @ drop (lo + m) xs)
         else Inl ValueError)"

text \<open>\<open>xs[a:b] = v\<close> for a scalar \<open>v\<close>.\<close>

definition np_fill_slice :: "'a list \<Rightarrow> int \<Rightarrow> int \<Rightarrow> 'a \<Rightarrow> 'a list" where
  "np_fill_slice xs a b v =
     (let lo = slice_index (length xs) a; hi = slice_index (length xs) b; m = hi - lo
      in take lo xs @ replicate m v @ drop (lo + m) xs)"

text \<open>An elementwise binary operation on two one-dimensional arrays, with numpy's
  broadcasting of a length-one operand.\<close>

definition np_binop :: "('a \<Rightarrow> 'a \<Rightarrow> 'a) \<Rightarrow> 'a list \<Rightarrow> 'a list \<Rightarrow> error + 'a list" where
  "np_binop f xs ys =
     (if length xs = length ys then Inr (map2 f xs ys)
      else if length xs = 1 then Inr (map (f (hd xs)) ys)
      else if length ys = 1 then Inr (map (\<lambda>x. f x (hd ys)) xs)
      else Inl ValueError)"

text \<open>\<open>xs[a:b] += src\<close>: the sum is written back into the slice, so \<open>src\<close> must have
  the length of the slice or length one.\<close>

definition np_iadd_slice :: "real list \<Rightarrow> int \<Rightarrow> int \<Rightarrow> real list \<Rightarrow> error + real list" where
  "np_iadd_slice xs a b src =
     (let lo = slice_index (length xs) a; hi = slice_index (length xs) b; m = hi - lo;
          old = take m (drop lo xs)
      in if length src = m then Inr (take lo xs @ map2 (+) old src @ drop (lo + m) xs)
         else if length src = 1 then
           Inr (take lo xs @ map (\<lambda>x. x + hd src) old @ drop (lo + m) xs)
         else Inl ValueError)"

text \<open>\<open>ndarray.resize(n)\<close> in place: a longer array is filled with zeros.\<close>

definition np_resize :: "real list \<Rightarrow> nat \<Rightarrow> real list" where
  "np_resize xs n = take n xs @ replicate (n - length xs) 0"

section \<open>Profile (profile.py)\<close>

text \<open>The class \<open>Profile\<close>: \<open>startingDT\<close> is \<open>None\<close> until the first write; the field
  \<open>values\<close> of the source is called \<open>vals\<close> here.\<close>

record profile =
  startingDT :: "datetime option"
  vals :: "real list"

definition Profile_empty :: profile where
  "Profile_empty = \<lparr>startingDT = None, vals = []\<rparr>"

text \<open>\<open>Profile.get(fromDT, toDT)\<close> with both bounds given.\<close>

definition Profile_get :: "profile \<Rightarrow> datetime \<Rightarrow> datetime \<Rightarrow> error + real list" where
  "Profile_get p fromDT toDT =
     (case startingDT p of
        None \<Rightarrow> np_zeros (minutesBetween fromDT toDT)
      | Some t0 \<Rightarrow>
          (let startIndex = minutesBetween t0 fromDT;
               len = minutesBetween fromDT toDT
           in case np_zeros len of
                Inl e \<Rightarrow> Inl e
              | Inr res \<Rightarrow>
                  (let stopIndex = min (int (length (vals p))) (minutesBetween t0 toDT)
                   in np_assign_slice res 0 (stopIndex - startIndex)
                        (py_slice (vals p) startIndex stopIndex))))"

text \<open>\<open>Profile.get(fromDT)\<close> with \<open>toDT\<close> omitted: one value, zero when out of range.\<close>

definition Profile_get_at :: "profile \<Rightarrow> datetime \<Rightarrow> error + real" where
  "Profile_get_at p fromDT =
     (case startingDT p of
        None \<Rightarrow> Inl IndexError
      | Some t0 \<Rightarrow>
          (let startIndex = minutesBetween t0 fromDT
           in if startIndex < 0 \<or> startIndex \<ge> int (length (vals p)) then Inr 0
              else Inr (vals p ! nat startIndex)))"

text \<open>\<open>Profile.set(fromDT, newValues)\<close>.\<close>

definition Profile_set :: "profile \<Rightarrow> datetime \<Rightarrow> real list \<Rightarrow> error + profile" where
  "Profile_set p fromDT newValues =
     (case startingDT p of
        None \<Rightarrow> Inr \<lparr>startingDT = Some fromDT, vals = newValues\<rparr>
      | Some t0 \<Rightarrow>
          (let startIndex = minutesBetween t0 fromDT;
               newSize = startIndex + int (length newValues);
               vs = (if newSize > int (length (vals p)) then np_resize (vals p) (nat newSize)
                     else vals p)
           in case np_assign_slice vs startIndex (startIndex + int (length newValues)) newValues of
                Inl e \<Rightarrow> Inl e
              | Inr vs' \<Rightarrow> Inr (p\<lparr>vals := vs'\<rparr>)))"

text \<open>\<open>Profile.add(fromDT, valuesToAdd)\<close>.\<close>

definition Profile_add :: "profile \<Rightarrow> datetime \<Rightarrow> real list \<Rightarrow> error + profile" where
  "Profile_add p fromDT valuesToAdd =
     (let t0 = (case startingDT p of None \<Rightarrow> fromDT | Some t \<Rightarrow> t);
          startIndex = minutesBetween t0 fromDT;
          newSize = startIndex + int (length valuesToAdd);
          vs = (if newSize > int (length (vals p)) then np_resize (vals p) (nat newSize)
                else vals p)
      in case np_iadd_slice vs startIndex (startIndex + int (length valuesToAdd)) valuesToAdd of
           Inl e \<Rightarrow> Inl e
         | Inr vs' \<Rightarrow> Inr \<lparr>startingDT = Some t0, vals = vs'\<rparr>)"

text \<open>The cosine ramp of \<open>transition\<close>:
  \<open>(cos(linspace(0, pi, num=n, endpoint=False)) + 1) / 2\<close>.\<close>

definition cos_ratio :: "nat \<Rightarrow> real list" where
  "cos_ratio n = map (\<lambda>k. (cos (real k * pi / real n) + 1) / 2) [0..<n]"

text \<open>\<open>numpy.pad(xs, (0, w), mode='constant', constant_values=c)\<close>: a negative width
  raises \<open>ValueError\<close>.\<close>

definition np_pad_right :: "real list \<Rightarrow> int \<Rightarrow> real \<Rightarrow> error + real list" where
  "np_pad_right xs w c = (if w < 0 then Inl ValueError else Inr (xs @ replicate (nat w) c))"

text \<open>\<open>Profile.transition(fromDT, newValues)\<close>.  The resize happens before the three
  cases are distinguished, as in the source.\<close>

definition Profile_transition :: "profile \<Rightarrow> datetime \<Rightarrow> real list \<Rightarrow> error + profile" where
  "Profile_transition p fromDT newValues =
     (case startingDT p of
        None \<Rightarrow> Profile_set p fromDT newValues
      | Some t0 \<Rightarrow>
          (let startIndex = minutesBetween t0 fromDT;
               overlappingValues = int (length (vals p)) - startIndex;
               newSize = startIndex + int (length newValues);
               vs = (if newSize > int (length (vals p)) then np_resize (vals p) (nat newSize)
                     else vals p)
           in if overlappingValues = 0 then Inr (p\<lparr>vals := vs @ newValues\<rparr>)
              else if overlappingValues < 0 then
                (case np_assign_slice vs startIndex (int (length vs)) newValues of
                   Inl e \<Rightarrow> Inl e
                 | Inr vs' \<Rightarrow> Inr (p\<lparr>vals := vs'\<rparr>))
              else
                (let oldValues = py_slice vs startIndex (int (length vs));
                     ratio = cos_ratio (nat overlappingValues);
                     w = int (length newValues) - overlappingValues
                 in case np_pad_right ratio w 0 of
                      Inl e \<Rightarrow> Inl e
                    | Inr oldMask \<Rightarrow>
                   (case np_pad_right (map (\<lambda>x. 1 - x) ratio) w 1 of
                      Inl e \<Rightarrow> Inl e
                    | Inr newMask \<Rightarrow>
                   (case np_binop (*) oldValues oldMask of
                      Inl e \<Rightarrow> Inl e
                    | Inr a \<Rightarrow>
                   (case np_binop (*) newValues newMask of
                      Inl e \<Rightarrow> Inl e
                    | Inr b \<Rightarrow>
                   (case np_binop (+) a b of
                      Inl e \<Rightarrow> Inl e
                    | Inr blended \<Rightarrow>
                   (case np_assign_slice vs startIndex (int (length vs)) blended of
                      Inl e \<Rightarrow> Inl e
                    | Inr vs' \<Rightarrow> Inr (p\<lparr>vals := vs'\<rparr>)))))))))"

text \<open>\<open>Profile.prune(toDT)\<close>.\<close>

definition Profile_prune :: "profile \<Rightarrow> datetime \<Rightarrow> profile" where
  "Profile_prune p toDT =
     (case startingDT p of
        None \<Rightarrow> p
      | Some t0 \<Rightarrow>
          if toDT \<le> t0 then p
          else \<lparr>startingDT = Some toDT,
                vals = py_slice (vals p) (minutesBetween t0 toDT) (int (length (vals p)))\<rparr>)"

section \<open>Time helpers (utils.py)\<close>

text \<open>\<open>datetime.time\<close>, used for the usage intervals.  The invariant of the Python class
  is \<open>hour < 24\<close> and \<open>minute < 60\<close>.\<close>

record time =
  hour :: nat
  minute :: nat

definition valid_time :: "time \<Rightarrow> bool" where
  "valid_time t \<longleftrightarrow> hour t < 24 \<and> minute t < 60"

type_synonym date = int

text \<open>\<open>minutesIn(oneDay)\<close>.\<close>

definition minutesInDay :: nat where
  "minutesInDay = 1440"

definition oneDay :: int where
  "oneDay = 1440"

text \<open>\<open>dt.date()\<close>: the day a timestamp lies in.\<close>

definition date_of :: "datetime \<Rightarrow> date" where
  "date_of dt = dt div 1440"

text \<open>The \<open>while\<close> loop of \<open>utils.midnightsBetween\<close>.\<close>

function midnights_loop :: "datetime \<Rightarrow> datetime \<Rightarrow> datetime list" where
  "midnights_loop currentDT endDT =
     (if currentDT < endDT then currentDT # midnights_loop (currentDT + oneDay) endDT else [])"
  by pat_completeness auto
termination
  by (relation "measure (\<lambda>(c, e). nat (e - c))") (auto simp: oneDay_def)

declare midnights_loop.simps [simp del]

text \<open>\<open>utils.midnightsBetween(startDT, endDT)\<close>.\<close>

definition midnightsBetween :: "datetime \<Rightarrow> datetime \<Rightarrow> datetime list" where
  "midnightsBetween startDT endDT =
     (if startDT mod 1440 = 0 then [startDT] else [])
     @ midnights_loop ((startDT div 1440) * 1440 + oneDay) endDT"

section \<open>Accumulator: the uncontrolled and spread-out policies (appliance.py)\<close>

record accumulator =
  acc_chargingPower :: real
  acc_capacity :: real
  acc_dischargingProfileScale :: real
  acc_smart_currentCharge :: real
  acc_uncontrolled_currentCharge :: real
  acc_spreadOut_charging :: bool
  acc_spreadOut_currentCharge :: real
  acc_dischargingProfile :: profile
  acc_priceProfile :: profile
  acc_smartDemand :: profile
  acc_uncontrolledDemand :: profile
  acc_spreadOutDemand :: profile

text \<open>One iteration of the simulation loop of
  \<open>Accumulator.calculateUncontrolledDemand\<close>; the state is \<open>(charge, powerProfile)\<close>.\<close>

definition uncontrolled_step ::
  "real \<Rightarrow> real \<Rightarrow> real \<Rightarrow> real list \<Rightarrow> real \<times> real list \<Rightarrow> nat \<Rightarrow> real \<times> real list" where
  "uncontrolled_step chargingRate chargingPower upperLimit dischargingRates st slot =
     (let charge = fst st - dischargingRates ! slot
      in if charge + chargingRate < upperLimit
         then (charge + chargingRate, (snd st)[slot := chargingPower])
         else (charge, snd st))"

text \<open>The loop run over the first \<open>k\<close> slots.\<close>

definition uncontrolled_loop ::
  "real \<Rightarrow> real \<Rightarrow> real \<Rightarrow> real list \<Rightarrow> real \<Rightarrow> nat \<Rightarrow> nat \<Rightarrow> real \<times> real list" where
  "uncontrolled_loop chargingRate chargingPower upperLimit dischargingRates charge totalSlots k =
     foldl (uncontrolled_step chargingRate chargingPower upperLimit dischargingRates)
       (charge, replicate totalSlots 0) [0..<k]"

text \<open>\<open>Accumulator.calculateUncontrolledDemand(fromDT, toDT)\<close>.\<close>

definition Accumulator_calculateUncontrolledDemand ::
  "accumulator \<Rightarrow> datetime \<Rightarrow> datetime \<Rightarrow> error + accumulator" where
  "Accumulator_calculateUncontrolledDemand a fromDT toDT =
     (case Profile_get (acc_dischargingProfile a) fromDT toDT of
        Inl e \<Rightarrow> Inl e
      | Inr dp \<Rightarrow>
          (let chargingRate = acc_chargingPower a / 60;
               dischargingRates = map (\<lambda>x. x / 60) dp;
               upperLimit = acc_capacity a;
               charge = acc_uncontrolled_currentCharge a;
               totalSlots = nat (minutesBetween fromDT toDT);
               res = uncontrolled_loop chargingRate (acc_chargingPower a) upperLimit
                       dischargingRates charge totalSlots totalSlots
           in case Profile_set (acc_uncontrolledDemand a) fromDT (snd res) of
                Inl e \<Rightarrow> Inl e
              | Inr d \<Rightarrow>
                  Inr (a\<lparr>acc_uncontrolled_currentCharge := fst res,
                         acc_uncontrolledDemand := d\<rparr>)))"

section \<open>Machine (appliance.py)\<close>

text \<open>A usage entry of a machine: \<open>None\<close> when the machine is not used that day,
  otherwise \<open>((startAfter, finishBy), powerUsageProfile)\<close>.\<close>

type_synonym machine_usage = "((time \<times> time) \<times> real list) option"

record machine =
  mach_usages :: "date \<rightharpoonup> machine_usage"
  mach_priceProfile :: profile
  mach_smartDemand :: profile
  mach_uncontrolledDemand :: profile
  mach_spreadOutDemand :: profile

text \<open>\<open>numpy.dot\<close> of two one-dimensional arrays: the lengths must agree.\<close>

definition np_dot :: "real list \<Rightarrow> real list \<Rightarrow> error + real" where
  "np_dot xs ys =
     (if length xs = length ys then Inr (sum_list (map2 (*) xs ys)) else Inl ValueError)"

text \<open>The price of a run that starts at \<open>startingSlot\<close>:
  \<open>numpy.dot(powerUsageProfile, priceProfile[startingSlot:startingSlot+runtime])\<close>.\<close>

definition slotPrice :: "real list \<Rightarrow> real list \<Rightarrow> nat \<Rightarrow> error + real" where
  "slotPrice powerUsageProfile priceProfile startingSlot =
     np_dot powerUsageProfile
       (py_slice priceProfile (int startingSlot)
          (int startingSlot + int (length powerUsageProfile)))"

text \<open>The search loop of \<open>Machine.calculateSmartDemand\<close> over the candidate slots; the
  state is \<open>(cheapestSlot, cheapestPrice)\<close>, where the price \<open>None\<close> stands for
  \<open>math.inf\<close>.\<close>

fun cheapest_search ::
  "real list \<Rightarrow> real list \<Rightarrow> nat list \<Rightarrow> nat \<times> real option \<Rightarrow> error + nat \<times> real option" where
  "cheapest_search powerUsageProfile priceProfile [] st = Inr st"
| "cheapest_search powerUsageProfile priceProfile (startingSlot # rest) st =
     (case slotPrice powerUsageProfile priceProfile startingSlot of
        Inl e \<Rightarrow> Inl e
      | Inr price \<Rightarrow>
          (if (case snd st of None \<Rightarrow> True | Some cheapestPrice \<Rightarrow> price < cheapestPrice)
           then cheapest_search powerUsageProfile priceProfile rest (startingSlot, Some price)
           else cheapest_search powerUsageProfile priceProfile rest st))"

definition startAfterSlot_of :: "time \<Rightarrow> nat" where
  "startAfterSlot_of startAfter = hour startAfter * 60 + minute startAfter"

definition finishBySlot_of :: "time \<Rightarrow> nat" where
  "finishBySlot_of finishBy = hour finishBy * 60 + minute finishBy + minutesInDay"

text \<open>The slot \<open>Machine.calculateSmartDemand\<close> starts the run at.\<close>

definition Machine_cheapestSlot :: "time \<Rightarrow> time \<Rightarrow> real list \<Rightarrow> real list \<Rightarrow> error + nat" where
  "Machine_cheapestSlot startAfter finishBy powerUsageProfile priceProfile =
     (let startAfterSlot = startAfterSlot_of startAfter;
          finishBySlot = finishBySlot_of finishBy;
          runtime = length powerUsageProfile
      in if int finishBySlot - int startAfterSlot > int runtime
         then (case cheapest_search powerUsageProfile priceProfile
                      [startAfterSlot..<finishBySlot - runtime] (startAfterSlot, None) of
                 Inl e \<Rightarrow> Inl e
               | Inr st \<Rightarrow> Inr (fst st))
         else Inr startAfterSlot)"

text \<open>The slot \<open>Machine.calculateUncontrolledDemand\<close> starts the run at.\<close>

definition Machine_uncontrolledSlot :: "time \<Rightarrow> nat" where
  "Machine_uncontrolledSlot startAfter = startAfterSlot_of startAfter"

text \<open>The slot \<open>Machine.calculateSpreadOutDemand\<close> starts the run at.\<close>

definition Machine_spreadOutSlot :: "time \<Rightarrow> time \<Rightarrow> real list \<Rightarrow> nat" where
  "Machine_spreadOutSlot startAfter finishBy powerUsageProfile =
     (let startAfterSlot = startAfterSlot_of startAfter;
          finishBySlot = finishBySlot_of finishBy;
          runtime = length powerUsageProfile
      in startAfterSlot
         + nat (max 0 ((int finishBySlot - int startAfterSlot - int runtime) div 2)))"

text \<open>\<open>powerProfile[slot:slot+runtime] = powerUsageProfile\<close> on the zeroed two-day buffer.\<close>

definition paste_usage :: "nat \<Rightarrow> real list \<Rightarrow> error + real list" where
  "paste_usage slot powerUsageProfile =
     np_assign_slice (replicate (2 * minutesInDay) 0) (int slot)
       (int slot + int (length powerUsageProfile)) powerUsageProfile"

text \<open>The body of the loop of \<open>Machine.calculateSmartDemand\<close> for one midnight.\<close>

definition Machine_smart_day :: "machine \<Rightarrow> datetime \<Rightarrow> error + machine" where
  "Machine_smart_day m midnight =
     (case mach_usages m (date_of midnight) of
        None \<Rightarrow> Inl KeyError
      | Some usage \<Rightarrow>
          (case (case usage of
                   None \<Rightarrow> Inr (replicate (2 * minutesInDay) 0)
                 | Some ((startAfter, finishBy), powerUsageProfile) \<Rightarrow>
                     (case Profile_get (mach_priceProfile m) midnight (midnight + 2 * oneDay) of
                        Inl e \<Rightarrow> Inl e
                      | Inr priceProfile \<Rightarrow>
                          (case Machine_cheapestSlot startAfter finishBy powerUsageProfile
                                  priceProfile of
                             Inl e \<Rightarrow> Inl e
                           | Inr cheapestSlot \<Rightarrow> paste_usage cheapestSlot powerUsageProfile))) of
             Inl e \<Rightarrow> Inl e
           | Inr powerProfile \<Rightarrow>
               (case Profile_add (mach_smartDemand m) midnight powerProfile of
                  Inl e \<Rightarrow> Inl e
                | Inr d \<Rightarrow> Inr (m\<lparr>mach_smartDemand := d\<rparr>))))"

text \<open>The body of the loop of \<open>Machine.calculateUncontrolledDemand\<close> for one midnight.\<close>

definition Machine_uncontrolled_day :: "machine \<Rightarrow> datetime \<Rightarrow> error + machine" where
  "Machine_uncontrolled_day m midnight =
     (case mach_usages m (date_of midnight) of
        None \<Rightarrow> Inl KeyError
      | Some usage \<Rightarrow>
          (case (case usage of
                   None \<Rightarrow> Inr (replicate (2 * minutesInDay) 0)
                 | Some ((startAfter, finishBy), powerUsageProfile) \<Rightarrow>
                     paste_usage (Machine_uncontrolledSlot startAfter) powerUsageProfile) of
             Inl e \<Rightarrow> Inl e
           | Inr powerProfile \<Rightarrow>
               (case Profile_add (mach_uncontrolledDemand m) midnight powerProfile of
                  Inl e \<Rightarrow> Inl e
                | Inr d \<Rightarrow> Inr (m\<lparr>mach_uncontrolledDemand := d\<rparr>))))"

text \<open>The body of the loop of \<open>Machine.calculateSpreadOutDemand\<close> for one midnight.\<close>

definition Machine_spreadOut_day :: "machine \<Rightarrow> datetime \<Rightarrow> error + machine" where
  "Machine_spreadOut_day m midnight =
     (case mach_usages m (date_of midnight) of
        None \<Rightarrow> Inl KeyError
      | Some usage \<Rightarrow>
          (case (case usage of
                   None \<Rightarrow> Inr (replicate (2 * minutesInDay) 0)
                 | Some ((startAfter, finishBy), powerUsageProfile) \<Rightarrow>
                     paste_usage (Machine_spreadOutSlot startAfter finishBy powerUsageProfile)
                       powerUsageProfile) of
             Inl e \<Rightarrow> Inl e
           | Inr powerProfile \<Rightarrow>
               (case Profile_add (mach_spreadOutDemand m) midnight powerProfile of
                  Inl e \<Rightarrow> Inl e
                | Inr d \<Rightarrow> Inr (m\<lparr>mach_spreadOutDemand := d\<rparr>))))"

text \<open>A \<open>for midnight in ...\<close> loop whose body may raise.\<close>

fun for_each :: "('s \<Rightarrow> 'x \<Rightarrow> error + 's) \<Rightarrow> 's \<Rightarrow> 'x list \<Rightarrow> error + 's" where
  "for_each body s [] = Inr s"
| "for_each body s (x # xs) =
     (case body s x of Inl e \<Rightarrow> Inl e | Inr s' \<Rightarrow> for_each body s' xs)"

definition Machine_calculateSmartDemand :: "machine \<Rightarrow> datetime \<Rightarrow> datetime \<Rightarrow> error + machine" where
  "Machine_calculateSmartDemand m fromDT toDT =
     for_each Machine_smart_day m (midnightsBetween fromDT toDT)"

definition Machine_calculateUncontrolledDemand ::
  "machine \<Rightarrow> datetime \<Rightarrow> datetime \<Rightarrow> error + machine" where
  "Machine_calculateUncontrolledDemand m fromDT toDT =
     for_each Machine_uncontrolled_day m (midnightsBetween fromDT toDT)"

definition Machine_calculateSpreadOutDemand ::
  "machine \<Rightarrow> datetime \<Rightarrow> datetime \<Rightarrow> error + machine" where
  "Machine_calculateSpreadOutDemand m fromDT toDT =
     for_each Machine_spreadOut_day m (midnightsBetween fromDT toDT)"

text \<open>\<open>Appliance.calculateDemand\<close> for a machine: the three policies in turn.\<close>

definition Machine_calculateDemand :: "machine \<Rightarrow> datetime \<Rightarrow> datetime \<Rightarrow> error + machine" where
  "Machine_calculateDemand m fromDT toDT =
     (case Machine_calculateSmartDemand m fromDT toDT of
        Inl e \<Rightarrow> Inl e
      | Inr m1 \<Rightarrow>
          (case Machine_calculateUncontrolledDemand m1 fromDT toDT of
             Inl e \<Rightarrow> Inl e
           | Inr m2 \<Rightarrow> Machine_calculateSpreadOutDemand m2 fromDT toDT))"

section \<open>Binary64 arithmetic\<close>

text \<open>Python's \<open>float\<close> and numpy's \<open>float64\<close> are IEEE 754 binary64 numbers: an
  arithmetic operation returns the exact result rounded to the nearest number with 53
  significant bits, a tie going to the one with an even last bit.  The battery policies
  turn such a rounded quotient into a number of slots with \<open>math.ceil\<close>, so their
  arithmetic is modelled with this rounding.\<close>

definition round_half_even :: "real \<Rightarrow> int" where
  "round_half_even y =
     (let f = \<lfloor>y\<rfloor>
      in if y - of_int f < 1 / 2 then f
         else if 1 / 2 < y - of_int f then f + 1
         else if even f then f else f + 1)"

definition pow2 :: "int \<Rightarrow> real" where
  "pow2 e = (if 0 \<le> e then 2 ^ nat e else 1 / 2 ^ nat (- e))"

text \<open>The exponent of the spacing of the binary64 numbers around \<open>x\<close>: 52 below the
  exponent of \<open>x\<close>, and \<open>-1074\<close> in the subnormal range.\<close>

definition ulp_exponent :: "real \<Rightarrow> int" where
  "ulp_exponent x = max (\<lfloor>log 2 \<bar>x\<bar>\<rfloor> - 52) (- 1074)"

text \<open>The binary64 number nearest to \<open>x\<close>.  The largest finite binary64 number is below
  \<open>2 ^ 1024\<close>; a rounded value of that size stands for an infinity.\<close>

definition float64 :: "real \<Rightarrow> real" where
  "float64 x =
     (if x = 0 then 0
      else of_int (round_half_even (x / pow2 (ulp_exponent x))) * pow2 (ulp_exponent x))"

section \<open>Battery (appliance.py)\<close>

text \<open>A usage entry of a battery:
  \<open>((disconnectionTime, connectionTime), chargeNeeded)\<close>.\<close>

type_synonym battery_usage = "(time \<times> time) \<times> real"

record battery =
  bat_chargingPower :: real
  bat_usages :: "date \<rightharpoonup> battery_usage"
  bat_priceProfile :: profile
  bat_smartDemand :: profile
  bat_uncontrolledDemand :: profile
  bat_spreadOutDemand :: profile

text \<open>\<open>math.ceil(chargeNeeded / chargePerSlot)\<close> with \<open>chargePerSlot = chargingPower / 60\<close>:
  both quotients are binary64 numbers, and \<open>math.ceil\<close> is exact on the second.  A zero
  \<open>chargePerSlot\<close> makes the source raise (\<open>ZeroDivisionError\<close> on Python floats, an
  error of \<open>math.ceil\<close> on numpy's \<open>inf\<close> or \<open>nan\<close>); the model has one error for it.
  A quotient that overflows makes \<open>math.ceil\<close> raise \<open>OverflowError\<close>.\<close>

definition slotsToChargeCompletely_of :: "real \<Rightarrow> real \<Rightarrow> error + int" where
  "slotsToChargeCompletely_of chargingPower chargeNeeded =
     (let chargePerSlot = float64 (chargingPower / 60)
      in if chargePerSlot = 0 then Inl ZeroDivisionError
         else if 2 ^ 1024 \<le> \<bar>float64 (chargeNeeded / chargePerSlot)\<bar> then Inl OverflowError
         else Inr \<lceil>float64 (chargeNeeded / chargePerSlot)\<rceil>)"

definition connectionSlot_of :: "time \<Rightarrow> nat" where
  "connectionSlot_of connectionTime = hour connectionTime * 60 + minute connectionTime"

definition disconnectionSlot_of :: "time \<Rightarrow> nat" where
  "disconnectionSlot_of disconnectionTime =
     minutesInDay + hour disconnectionTime * 60 + minute disconnectionTime"

text \<open>\<open>xs[idxs] = v\<close> for an index array: an index out of range raises \<open>IndexError\<close>.\<close>

fun np_put :: "'a list \<Rightarrow> nat list \<Rightarrow> 'a \<Rightarrow> error + 'a list" where
  "np_put xs [] v = Inr xs"
| "np_put xs (i # idxs) v =
     (if i < length xs then np_put (xs[i := v]) idxs v else Inl IndexError)"

text \<open>\<open>xs[i] = v\<close> for one non-negative index.\<close>

definition np_set_item :: "'a list \<Rightarrow> nat \<Rightarrow> 'a \<Rightarrow> error + 'a list" where
  "np_set_item xs i v = (if i < length xs then Inr (xs[i := v]) else Inl IndexError)"

text \<open>The power profile \<open>Battery.calculateSmartDemand\<close> builds for one midnight.
  \<open>argpartition\<close> is \<open>numpy.argpartition\<close>, a library function whose result the model does
  not fix; it raises \<open>ValueError\<close> when \<open>kth\<close> is not below the length of its argument.\<close>

definition Battery_smart_powerProfile ::
  "(real list \<Rightarrow> nat \<Rightarrow> nat list) \<Rightarrow> battery \<Rightarrow> datetime \<Rightarrow> error + real list" where
  "Battery_smart_powerProfile argpartition b midnight =
     (let date = date_of midnight;
          powerProfile = replicate (2 * minutesInDay) (0::real)
      in case bat_usages b date of
           None \<Rightarrow> Inl KeyError
         | Some ((_, connectionTime), chargeNeeded) \<Rightarrow>
       (case bat_usages b (date + 1) of
           None \<Rightarrow> Inl KeyError
         | Some ((disconnectionTime, _), _) \<Rightarrow>
       (case slotsToChargeCompletely_of (bat_chargingPower b) chargeNeeded of
           Inl e \<Rightarrow> Inl e
         | Inr slotsToChargeCompletely \<Rightarrow>
           if slotsToChargeCompletely > 0 then
             (let connectionSlot = connectionSlot_of connectionTime;
                  disconnectionSlot = disconnectionSlot_of disconnectionTime;
                  chargePerSlot = float64 (bat_chargingPower b / 60)
              in if int disconnectionSlot - int connectionSlot \<le> slotsToChargeCompletely
                 then Inr (np_fill_slice powerProfile (int connectionSlot) (int disconnectionSlot)
                             (bat_chargingPower b))
                 else
                   (case Profile_get (bat_priceProfile b) midnight (midnight + 2 * oneDay) of
                      Inl e \<Rightarrow> Inl e
                    | Inr priceProfile \<Rightarrow>
                        (let window = py_slice priceProfile (int connectionSlot)
                                        (int disconnectionSlot)
                         in if nat slotsToChargeCompletely \<ge> length window then Inl ValueError
                            else
                              (let cheapestSlots =
                                     map (\<lambda>i. i + connectionSlot)
                                       (take (nat slotsToChargeCompletely)
                                          (argpartition window (nat slotsToChargeCompletely)))
                               in case np_put powerProfile (butlast cheapestSlots)
                                         (bat_chargingPower b) of
                                    Inl e \<Rightarrow> Inl e
                                  | Inr pp \<Rightarrow>
                                      (let lastSlotCharge =
                                             float64
                                               (chargeNeeded
                                                - float64
                                                    (chargePerSlot
                                                     * real_of_int
                                                         (slotsToChargeCompletely - 1)))
                                       in if cheapestSlots = [] then Inl IndexError
                                          else np_set_item pp (last cheapestSlots)
                                                 (float64 (lastSlotCharge * 60)))))))
           else Inr powerProfile)))"

text \<open>The power profile \<open>Battery.calculateUncontrolledDemand\<close> builds for one midnight.\<close>

definition Battery_uncontrolled_powerProfile :: "battery \<Rightarrow> datetime \<Rightarrow> error + real list" where
  "Battery_uncontrolled_powerProfile b midnight =
     (let date = date_of midnight;
          powerProfile = replicate (2 * minutesInDay) (0::real)
      in case bat_usages b date of
           None \<Rightarrow> Inl KeyError
         | Some ((_, connectionTime), chargeNeeded) \<Rightarrow>
       (case bat_usages b (date + 1) of
           None \<Rightarrow> Inl KeyError
         | Some ((disconnectionTime, _), _) \<Rightarrow>
       (case slotsToChargeCompletely_of (bat_chargingPower b) chargeNeeded of
           Inl e \<Rightarrow> Inl e
         | Inr slotsToChargeCompletely \<Rightarrow>
           if slotsToChargeCompletely > 0 then
             (let connectionSlot = connectionSlot_of connectionTime;
                  disconnectionSlot = disconnectionSlot_of disconnectionTime;
                  chargePerSlot = float64 (bat_chargingPower b / 60)
              in if int disconnectionSlot - int connectionSlot < slotsToChargeCompletely
                 then Inr (np_fill_slice powerProfile (int connectionSlot) (int disconnectionSlot)
                             (bat_chargingPower b))
                 else
                   (let pp = np_fill_slice powerProfile (int connectionSlot)
                               (int connectionSlot + slotsToChargeCompletely - 1)
                               (bat_chargingPower b);
                        lastSlotCharge =
                          float64
                            (chargeNeeded
                             - float64
                                 (chargePerSlot * real_of_int (slotsToChargeCompletely - 1)))
                    in np_set_item pp (connectionSlot + nat slotsToChargeCompletely)
                         (float64 (lastSlotCharge * 60))))
           else Inr powerProfile)))"

text \<open>The power profile \<open>Battery.calculateSpreadOutDemand\<close> builds for one midnight.\<close>

definition Battery_spreadOut_powerProfile :: "battery \<Rightarrow> datetime \<Rightarrow> error + real list" where
  "Battery_spreadOut_powerProfile b midnight =
     (let date = date_of midnight;
          powerProfile = replicate (2 * minutesInDay) (0::real)
      in case bat_usages b date of
           None \<Rightarrow> Inl KeyError
         | Some ((_, connectionTime), chargeNeeded) \<Rightarrow>
       (case bat_usages b (date + 1) of
           None \<Rightarrow> Inl KeyError
         | Some ((disconnectionTime, _), _) \<Rightarrow>
       (case slotsToChargeCompletely_of (bat_chargingPower b) chargeNeeded of
           Inl e \<Rightarrow> Inl e
         | Inr slotsToChargeCompletely \<Rightarrow>
           if slotsToChargeCompletely > 0 then
             (let connectionSlot = connectionSlot_of connectionTime;
                  disconnectionSlot = disconnectionSlot_of disconnectionTime
              in if int disconnectionSlot - int connectionSlot < slotsToChargeCompletely
                 then Inr (np_fill_slice powerProfile (int connectionSlot) (int disconnectionSlot)
                             (bat_chargingPower b))
                 else Inr (np_fill_slice powerProfile (int connectionSlot) (int disconnectionSlot)
                             (float64
                                (chargeNeeded
                                 / float64
                                     ((real disconnectionSlot - real connectionSlot) / 60)))))
           else Inr powerProfile)))"

definition Battery_smart_day ::
  "(real list \<Rightarrow> nat \<Rightarrow> nat list) \<Rightarrow> battery \<Rightarrow> datetime \<Rightarrow> error + battery" where
  "Battery_smart_day argpartition b midnight =
     (case Battery_smart_powerProfile argpartition b midnight of
        Inl e \<Rightarrow> Inl e
      | Inr powerProfile \<Rightarrow>
          (case Profile_add (bat_smartDemand b) midnight powerProfile of
             Inl e \<Rightarrow> Inl e
           | Inr d \<Rightarrow> Inr (b\<lparr>bat_smartDemand := d\<rparr>)))"

definition Battery_uncontrolled_day :: "battery \<Rightarrow> datetime \<Rightarrow> error + battery" where
  "Battery_uncontrolled_day b midnight =
     (case Battery_uncontrolled_powerProfile b midnight of
        Inl e \<Rightarrow> Inl e
      | Inr powerProfile \<Rightarrow>
          (case Profile_add (bat_uncontrolledDemand b) midnight powerProfile of
             Inl e \<Rightarrow> Inl e
           | Inr d \<Rightarrow> Inr (b\<lparr>bat_uncontrolledDemand := d\<rparr>)))"

definition Battery_spreadOut_day :: "battery \<Rightarrow> datetime \<Rightarrow> error + battery" where
  "Battery_spreadOut_day b midnight =
     (case Battery_spreadOut_powerProfile b midnight of
        Inl e \<Rightarrow> Inl e
      | Inr powerProfile \<Rightarrow>
          (case Profile_add (bat_spreadOutDemand b) midnight powerProfile of
             Inl e \<Rightarrow> Inl e
           | Inr d \<Rightarrow> Inr (b\<lparr>bat_spreadOutDemand := d\<rparr>)))"

definition Battery_calculateSmartDemand ::
  "(real list \<Rightarrow> nat \<Rightarrow> nat list) \<Rightarrow> battery \<Rightarrow> datetime \<Rightarrow> datetime \<Rightarrow> error + battery" where
  "Battery_calculateSmartDemand argpartition b fromDT toDT =
     for_each (Battery_smart_day argpartition) b (midnightsBetween fromDT toDT)"

definition Battery_calculateUncontrolledDemand ::
  "battery \<Rightarrow> datetime \<Rightarrow> datetime \<Rightarrow> error + battery" where
  "Battery_calculateUncontrolledDemand b fromDT toDT =
     for_each Battery_uncontrolled_day b (midnightsBetween fromDT toDT)"

definition Battery_calculateSpreadOutDemand ::
  "battery \<Rightarrow> datetime \<Rightarrow> datetime \<Rightarrow> error + battery" where
  "Battery_calculateSpreadOutDemand b fromDT toDT =
     for_each Battery_spreadOut_day b (midnightsBetween fromDT toDT)"

text \<open>\<open>Appliance.calculateDemand\<close> for a battery: the three policies in turn.\<close>

definition Battery_calculateDemand ::
  "(real list \<Rightarrow> nat \<Rightarrow> nat list) \<Rightarrow> battery \<Rightarrow> datetime \<Rightarrow> datetime \<Rightarrow> error + battery" where
  "Battery_calculateDemand argpartition b fromDT toDT =
     (case Battery_calculateSmartDemand argpartition b fromDT toDT of
        Inl e \<Rightarrow> Inl e
      | Inr b1 \<Rightarrow>
          (case Battery_calculateUncontrolledDemand b1 fromDT toDT of
             Inl e \<Rightarrow> Inl e
           | Inr b2 \<Rightarrow> Battery_calculateSpreadOutDemand b2 fromDT toDT))"


section \<open>Usage generation (appliance.py, applianceStatistics.py)\<close>

text \<open>The module \<open>random\<close>: its generator state is a value of type \<open>'g\<close>, and each library
  function maps a state to its outcome and the next state.  \<open>rnd_index n\<close> is the index
  \<open>random.choice\<close> picks in a sequence of length \<open>n\<close>.\<close>

record 'g random_module =
  rnd_random :: "'g \<Rightarrow> real \<times> 'g"
  rnd_gauss :: "real \<Rightarrow> real \<Rightarrow> 'g \<Rightarrow> real \<times> 'g"
  rnd_index :: "nat \<Rightarrow> 'g \<Rightarrow> nat \<times> 'g"

text \<open>\<open>random.choice(xs)\<close>: an empty sequence raises \<open>IndexError\<close>.\<close>

definition random_choice :: "'g random_module \<Rightarrow> 'a list \<Rightarrow> 'g \<Rightarrow> error + 'a \<times> 'g" where
  "random_choice R xs g =
     (if xs = [] then Inl IndexError
      else (let r = rnd_index R (length xs) g
            in if fst r < length xs then Inr (xs ! fst r, snd r) else Inl IndexError))"

record batteryStatistics =
  bs_usageProbabilities :: "date \<rightharpoonup> real"
  bs_neededCharges :: "date \<rightharpoonup> real list"
  bs_usageIntervals :: "date \<Rightarrow> (time option \<times> time option) list"

text \<open>\<open>BatteryStatistics.randomNeededCharge(date)\<close>.\<close>

definition randomNeededCharge ::
  "'g random_module \<Rightarrow> batteryStatistics \<Rightarrow> date \<Rightarrow> 'g \<Rightarrow> error + real \<times> 'g" where
  "randomNeededCharge R stats date g =
     (let r = rnd_random R g
      in case bs_usageProbabilities stats date of
           None \<Rightarrow> Inl KeyError
         | Some prob \<Rightarrow>
             if fst r < prob then
               (case bs_neededCharges stats date of
                  None \<Rightarrow> Inl KeyError
                | Some charges \<Rightarrow> random_choice R charges (snd r))
             else Inr (0, snd r))"

text \<open>\<open>BatteryStatistics.randomUsageInterval(date)\<close>; \<open>usageIntervals\<close> is a
  \<open>defaultdict(list)\<close>, so a date without entry has the empty list.\<close>

definition randomUsageInterval ::
  "'g random_module \<Rightarrow> batteryStatistics \<Rightarrow> date \<Rightarrow> 'g
   \<Rightarrow> error + (time option \<times> time option) \<times> 'g" where
  "randomUsageInterval R stats date g =
     (if length (bs_usageIntervals stats date) = 0 then Inr ((None, None), g)
      else random_choice R (bs_usageIntervals stats date) g)"

text \<open>The body of the loop of \<open>Battery.generateUsage\<close> for one midnight; the state is the
  dictionary \<open>memory.usages\<close> and the generator.\<close>

definition Battery_generateUsage_day ::
  "'g random_module \<Rightarrow> batteryStatistics \<Rightarrow> (date \<rightharpoonup> battery_usage) \<times> 'g \<Rightarrow> datetime
   \<Rightarrow> error + (date \<rightharpoonup> battery_usage) \<times> 'g" where
  "Battery_generateUsage_day R stats st midnight =
     (let date = date_of midnight
      in if fst st date = None then
           (case randomUsageInterval R stats date (snd st) of
              Inl e \<Rightarrow> Inl e
            | Inr ((disconnectionTime, connectionTime), g1) \<Rightarrow>
                (let disconnectionTime' =
                       (case disconnectionTime of
                          None \<Rightarrow> \<lparr>hour = 23, minute = 59\<rparr> | Some t \<Rightarrow> t);
                     connectionTime' =
                       (case connectionTime of
                          None \<Rightarrow> \<lparr>hour = 0, minute = 0\<rparr> | Some t \<Rightarrow> t)
                 in case randomNeededCharge R stats date g1 of
                      Inl e \<Rightarrow> Inl e
                    | Inr (chargeNeeded, g2) \<Rightarrow>
                        Inr ((fst st)(date \<mapsto>
                               ((disconnectionTime', connectionTime'), chargeNeeded)), g2)))
         else Inr st)"

text \<open>\<open>Battery.generateUsage(fromDT, toDT)\<close>.\<close>

definition Battery_generateUsage ::
  "'g random_module \<Rightarrow> batteryStatistics \<Rightarrow> battery \<times> 'g \<Rightarrow> datetime \<Rightarrow> datetime
   \<Rightarrow> error + battery \<times> 'g" where
  "Battery_generateUsage R stats bg fromDT toDT =
     (case for_each (Battery_generateUsage_day R stats) (bat_usages (fst bg), snd bg)
             (midnightsBetween fromDT (toDT + oneDay)) of
        Inl e \<Rightarrow> Inl e
      | Inr st \<Rightarrow> Inr ((fst bg)\<lparr>bat_usages := fst st\<rparr>, snd st))"

record machineStatistics =
  ms_startAfterParameters :: "real \<times> real"
  ms_finishByParameters :: "real \<times> real"
  ms_usageProbabilities :: "date \<rightharpoonup> real"
  ms_usageProfiles :: "real list list"

text \<open>The clipping both \<open>randomStartAfter\<close> and \<open>randomFinishBy\<close> apply to the Gaussian
  sample: \<open>min(max(0, floor(x)), minutesIn(oneDay) - 1)\<close>, turned into a time of day.\<close>

definition time_of_sample :: "real \<Rightarrow> time" where
  "time_of_sample x =
     (let minutes = nat (min (max 0 \<lfloor>x\<rfloor>) (int minutesInDay - 1))
      in \<lparr>hour = minutes div 60, minute = minutes mod 60\<rparr>)"

definition randomStartAfter :: "'g random_module \<Rightarrow> machineStatistics \<Rightarrow> 'g \<Rightarrow> time \<times> 'g" where
  "randomStartAfter R stats g =
     (let r = rnd_gauss R (fst (ms_startAfterParameters stats))
                (snd (ms_startAfterParameters stats)) g
      in (time_of_sample (fst r), snd r))"

definition randomFinishBy :: "'g random_module \<Rightarrow> machineStatistics \<Rightarrow> 'g \<Rightarrow> time \<times> 'g" where
  "randomFinishBy R stats g =
     (let r = rnd_gauss R (fst (ms_finishByParameters stats))
                (snd (ms_finishByParameters stats)) g
      in (time_of_sample (fst r), snd r))"

text \<open>The body of the loop of \<open>Machine.generateUsage\<close> for one midnight.\<close>

definition Machine_generateUsage_day ::
  "'g random_module \<Rightarrow> machineStatistics \<Rightarrow> (date \<rightharpoonup> machine_usage) \<times> 'g \<Rightarrow> datetime
   \<Rightarrow> error + (date \<rightharpoonup> machine_usage) \<times> 'g" where
  "Machine_generateUsage_day R stats st midnight =
     (let date = date_of midnight
      in if fst st date = None then
           (let r = rnd_random R (snd st)
            in case ms_usageProbabilities stats date of
                 None \<Rightarrow> Inl KeyError
               | Some prob \<Rightarrow>
                   if fst r < prob then
                     (let sa = randomStartAfter R stats (snd r);
                          fb = randomFinishBy R stats (snd sa)
                      in case random_choice R (ms_usageProfiles stats) (snd fb) of
                           Inl e \<Rightarrow> Inl e
                         | Inr (powerUsageProfile, g3) \<Rightarrow>
                             Inr ((fst st)(date \<mapsto>
                                    Some ((fst sa, fst fb), powerUsageProfile)), g3))
                   else Inr ((fst st)(date \<mapsto> None), snd r))
         else Inr st)"

text \<open>\<open>Machine.generateUsage(fromDT, toDT)\<close>.\<close>

definition Machine_generateUsage ::
  "'g random_module \<Rightarrow> machineStatistics \<Rightarrow> machine \<times> 'g \<Rightarrow> datetime \<Rightarrow> datetime
   \<Rightarrow> error + machine \<times> 'g" where
  "Machine_generateUsage R stats mg fromDT toDT =
     (case for_each (Machine_generateUsage_day R stats) (mach_usages (fst mg), snd mg)
             (midnightsBetween fromDT toDT) of
        Inl e \<Rightarrow> Inl e
      | Inr st \<Rightarrow> Inr ((fst mg)\<lparr>mach_usages := fst st\<rparr>, snd st))"

section \<open>Command line (run.py)\<close>

text \<open>The built-in \<open>int(s)\<close> on a string of ASCII characters: surrounding whitespace is
  ignored, one sign is allowed, and single underscores may separate digits.  \<open>None\<close>
  stands for \<open>ValueError\<close>, which CPython 3.11 and later also raise for a string of more
  than 4300 digits (\<open>sys.int_info.default_max_str_digits\<close>).\<close>

definition max_str_digits :: nat where
  "max_str_digits = 4300"

definition is_space :: "char \<Rightarrow> bool" where
  "is_space c \<longleftrightarrow> c \<in> set [CHR '' '', CHR 0x09, CHR 0x0A, CHR 0x0B, CHR 0x0C, CHR 0x0D]"

definition py_strip :: "string \<Rightarrow> string" where
  "py_strip s = rev (dropWhile is_space (rev (dropWhile is_space s)))"

definition is_digit :: "char \<Rightarrow> bool" where
  "is_digit c \<longleftrightarrow> (48::nat) \<le> of_char c \<and> of_char c \<le> (57::nat)"

definition digit_value :: "char \<Rightarrow> nat" where
  "digit_value c = of_char c - 48"

fun digits_value :: "string \<Rightarrow> bool \<Rightarrow> nat \<Rightarrow> nat option" where
  "digits_value [] prev acc = (if prev then Some acc else None)"
| "digits_value (c # cs) prev acc =
     (if is_digit c then digits_value cs True (acc * 10 + digit_value c)
      else if c = CHR ''_'' \<and> prev \<and> cs \<noteq> [] \<and> is_digit (hd cs)
        then digits_value cs False acc
      else None)"

definition py_int :: "string \<Rightarrow> int option" where
  "py_int s =
     (case py_strip s of
        [] \<Rightarrow> None
      | c # cs \<Rightarrow>
          if max_str_digits < length (filter is_digit (c # cs)) then None
          else if c = CHR ''-'' then map_option (\<lambda>n. - int n) (digits_value cs False 0)
          else if c = CHR ''+'' then map_option int (digits_value cs False 0)
          else map_option int (digits_value (c # cs) False 0))"

text \<open>\<open>datetime.datetime.strptime(s, "%Y-%m-%d")\<close> on a string of ASCII characters: four
  digits of year, a month \<open>1..12\<close> and a day \<open>1..31\<close> of one or two digits (the day may
  also be a space and a digit), and the date must exist.  The result is
  \<open>(year, month, day)\<close>; \<open>None\<close> stands for \<open>ValueError\<close>.\<close>

definition is_leap :: "nat \<Rightarrow> bool" where
  "is_leap y \<longleftrightarrow> y mod 4 = 0 \<and> (y mod 100 \<noteq> 0 \<or> y mod 400 = 0)"

definition days_in_month :: "nat \<Rightarrow> nat \<Rightarrow> nat" where
  "days_in_month y m =
     (if m = 2 then (if is_leap y then 29 else 28)
      else if m \<in> set [4, 6, 9, 11] then 30 else 31)"

definition month_field :: "string \<Rightarrow> nat option" where
  "month_field s =
     (case s of
        [a] \<Rightarrow> if is_digit a \<and> a \<noteq> CHR ''0'' then Some (digit_value a) else None
      | [a, b] \<Rightarrow>
          if is_digit a \<and> is_digit b \<and> 1 \<le> digit_value a * 10 + digit_value b
             \<and> digit_value a * 10 + digit_value b \<le> 12
          then Some (digit_value a * 10 + digit_value b) else None
      | _ \<Rightarrow> None)"

definition day_field :: "string \<Rightarrow> nat option" where
  "day_field s =
     (case s of
        [a] \<Rightarrow> if is_digit a \<and> a \<noteq> CHR ''0'' then Some (digit_value a) else None
      | [a, b] \<Rightarrow>
          if a = CHR '' '' \<and> is_digit b \<and> b \<noteq> CHR ''0'' then Some (digit_value b)
          else if is_digit a \<and> is_digit b \<and> 1 \<le> digit_value a * 10 + digit_value b
             \<and> digit_value a * 10 + digit_value b \<le> 31
          then Some (digit_value a * 10 + digit_value b) else None
      | _ \<Rightarrow> None)"

definition strptime_ymd :: "string \<Rightarrow> (nat \<times> nat \<times> nat) option" where
  "strptime_ymd s =
     (case s of
        y1 # y2 # y3 # y4 # dash # rest \<Rightarrow>
          if is_digit y1 \<and> is_digit y2 \<and> is_digit y3 \<and> is_digit y4 \<and> dash = CHR ''-'' then
            (let year = ((digit_value y1 * 10 + digit_value y2) * 10 + digit_value y3) * 10
                        + digit_value y4;
                 mstr = takeWhile (\<lambda>c. c \<noteq> CHR ''-'') rest;
                 rest' = dropWhile (\<lambda>c. c \<noteq> CHR ''-'') rest
             in case rest' of
                  [] \<Rightarrow> None
                | _ # dstr \<Rightarrow>
                    (case month_field mstr of
                       None \<Rightarrow> None
                     | Some month \<Rightarrow>
                         (case day_field dstr of
                            None \<Rightarrow> None
                          | Some day \<Rightarrow>
                              if 1 \<le> year \<and> day \<le> days_in_month year month
                              then Some (year, month, day) else None)))
          else None
      | _ \<Rightarrow> None)"

text \<open>What \<open>run.py\<close> itself does with \<open>sys.argv\<close>: \<open>Exit n\<close> is \<open>usage()\<close> followed by
  \<open>sys.exit(n)\<close>; \<open>Simulator_run\<close> is reaching the call of \<open>Simulator.run\<close> with the parsed
  arguments.  What that call then does, and how the process ends after it, is not part
  of \<open>run_main\<close>.\<close>

datatype outcome =
    Exit nat
  | Simulator_run "nat \<times> nat \<times> nat" int int string

definition run_main :: "string list \<Rightarrow> outcome" where
  "run_main argv =
     (if length argv \<noteq> 5 then Exit 1
      else
        (case strptime_ymd (argv ! 1) of
           None \<Rightarrow> Exit 1
         | Some startingDate \<Rightarrow>
             (case py_int (argv ! 2) of
                None \<Rightarrow> Exit 1
              | Some len \<Rightarrow>
                  (case py_int (argv ! 3) of
                     None \<Rightarrow> Exit 1
                   | Some cnt \<Rightarrow>
                       (let simulationLength = max 0 len;
                            houseCount = max 0 cnt;
                            outputFolder = argv ! 4
                        in Simulator_run startingDate simulationLength houseCount
                             outputFolder)))))"

section \<open>Connection: cheap-minute realisation (connection.py)\<close>

text \<open>The start of the interval painted for the sampled position \<open>c\<close>:
  \<open>minutesIn(shift) + c - cheapIntervalLength // 2\<close>.\<close>

definition cheapIntervalStart_of :: "nat \<Rightarrow> nat \<Rightarrow> int" where
  "cheapIntervalStart_of cheapIntervalLength c =
     int cheapIntervalLength + int c - int (cheapIntervalLength div 2)"

text \<open>One iteration of the \<open>while\<close> loop: paint the interval for the sampled position.\<close>

definition paint_interval :: "nat \<Rightarrow> real list \<Rightarrow> nat \<Rightarrow> real list" where
  "paint_interval cheapIntervalLength cheaperIntervals c =
     (let cheapIntervalStart = cheapIntervalStart_of cheapIntervalLength c
      in np_fill_slice cheaperIntervals cheapIntervalStart
           (cheapIntervalStart + int cheapIntervalLength) 1)"

text \<open>The \<open>while numpy.sum(cheaperIntervals) < cheapMinutesTotal\<close> loop.  \<open>samples\<close> is
  the sequence of positions that the successive calls of
  \<open>utils.randomWithRelativeProbs(probs)\<close> return, \<open>i\<close> the number of calls made so far.
  The loop need not end; then the result is \<open>None\<close>.\<close>

partial_function (option) cheaper_loop ::
  "nat \<Rightarrow> nat \<Rightarrow> (nat \<Rightarrow> nat) \<Rightarrow> nat \<Rightarrow> real list \<Rightarrow> real list option" where
  "cheaper_loop cheapIntervalLength cheapMinutesTotal samples i cheaperIntervals =
     (if sum_list cheaperIntervals < real cheapMinutesTotal
      then cheaper_loop cheapIntervalLength cheapMinutesTotal samples (Suc i)
             (paint_interval cheapIntervalLength cheaperIntervals (samples i))
      else Some cheaperIntervals)"

text \<open>The mask \<open>cheaperIntervals\<close> built for one midnight in the branch
  \<open>cheapMinutesTotal \<noteq> 0\<close>.  \<open>positions\<close> is the array
  \<open>utils.randomWithRelativeProbs(probs, count=cheapMinutesTotal)\<close> returns, \<open>samples\<close> the
  outcomes of the calls without \<open>count\<close>.  The result is \<open>None\<close> when the loop does not
  end.\<close>

definition cheaperIntervals_of_day ::
  "nat \<Rightarrow> nat \<Rightarrow> nat list \<Rightarrow> (nat \<Rightarrow> nat) \<Rightarrow> (error + real list) option" where
  "cheaperIntervals_of_day cheapIntervalLength cheapMinutesTotal positions samples =
     (let cheaperIntervals = replicate (minutesInDay + 2 * cheapIntervalLength) (0::real)
      in if cheapIntervalLength = 1 then Some (np_put cheaperIntervals positions 1)
         else map_option Inr
                (cheaper_loop cheapIntervalLength cheapMinutesTotal samples 0 cheaperIntervals))"

text \<open>The mask after the first \<open>n\<close> iterations of the loop.\<close>

fun painted :: "nat \<Rightarrow> (nat \<Rightarrow> nat) \<Rightarrow> nat \<Rightarrow> real list \<Rightarrow> nat \<Rightarrow> real list" where
  "painted cheapIntervalLength samples i cheaperIntervals 0 = cheaperIntervals"
| "painted cheapIntervalLength samples i cheaperIntervals (Suc n) =
     painted cheapIntervalLength samples (Suc i)
       (paint_interval cheapIntervalLength cheaperIntervals (samples i)) n"

text \<open>The contract of \<open>numpy.random.choice(n, size=count, replace=False, p=probs)\<close>:
  \<open>count\<close> different positions below \<open>n\<close>.\<close>

definition choice_without_replacement_ok :: "nat \<Rightarrow> nat \<Rightarrow> nat list \<Rightarrow> bool" where
  "choice_without_replacement_ok n count positions \<longleftrightarrow>
     length positions = count \<and> distinct positions \<and> (\<forall>p \<in> set positions. p < n)"

section \<open>Grid: the target demand (grid.py)\<close>






text \<open>\<open>totalExpectedConsumption *= 0.9 + numpy.random.random() * 0.2\<close>, where \<open>u\<close> is the
  outcome of \<open>numpy.random.random()\<close>.\<close>

definition with_error :: "real \<Rightarrow> real \<Rightarrow> real" where
  "with_error totalExpectedConsumption u = totalExpectedConsumption * (0.9 + u * 0.2)"

text \<open>Lines 150 to 161: the target demand is scaled down or shifted up to the expected
  consumption, then clamped at zero.\<close>

definition adjust_targetDemand :: "real \<Rightarrow> real list \<Rightarrow> int \<Rightarrow> error + real list" where
  "adjust_targetDemand totalExpectedConsumption targetDemand intervalLength =
     (let totalTargetIntervalConsumption =
            sum_list (py_slice targetDemand 0 intervalLength) / 60
      in case (if totalExpectedConsumption \<le> totalTargetIntervalConsumption
               then (if totalTargetIntervalConsumption = 0 then Inl NonFinite
                     else Inr (map (\<lambda>x. x * (totalExpectedConsumption
                                               / totalTargetIntervalConsumption))
                                 targetDemand))
               else (if intervalLength = 0 then Inl NonFinite
                     else Inr (map (\<lambda>x. x + (totalExpectedConsumption
                                               - totalTargetIntervalConsumption)
                                              / (real_of_int intervalLength / 60))
                                 targetDemand))) of
           Inl e \<Rightarrow> Inl e
         | Inr targetDemand' \<Rightarrow> Inr (map (\<lambda>x. max x 0) targetDemand'))"



section \<open>Accumulator: the smart policy (appliance.py)\<close>

text \<open>\<open>numpy.cumsum\<close>.\<close>

fun cumsum_from :: "real \<Rightarrow> real list \<Rightarrow> real list" where
  "cumsum_from acc [] = []"
| "cumsum_from acc (x # xs) = (acc + x) # cumsum_from (acc + x) xs"

definition np_cumsum :: "real list \<Rightarrow> real list" where
  "np_cumsum xs = cumsum_from 0 xs"

text \<open>The limits in integer steps, lines 314 to 317.\<close>

definition initial_lowerLimit :: "real \<Rightarrow> real \<Rightarrow> real \<Rightarrow> real list \<Rightarrow> int list" where
  "initial_lowerLimit lowerTarget startingCharge chargingRate dischargingSum =
     map (\<lambda>D. max \<lceil>(lowerTarget - startingCharge + D) / chargingRate\<rceil> 0) dischargingSum"

definition initial_upperLimit :: "real \<Rightarrow> real \<Rightarrow> real \<Rightarrow> nat \<Rightarrow> real list \<Rightarrow> int list" where
  "initial_upperLimit upperTarget startingCharge chargingRate totalSlots dischargingSum =
     map (\<lambda>D. min \<lfloor>(upperTarget - startingCharge + D) / chargingRate\<rfloor> (int totalSlots))
       dischargingSum"

text \<open>The first loop (lines 320 to 324) treats both arrays alike and independently:
  \<open>if a[i+1] < a[i]: a[i+1] = a[i]\<close> for \<open>i\<close> ascending.\<close>

definition forward_step :: "int list \<Rightarrow> nat \<Rightarrow> int list" where
  "forward_step a i = (if a ! (i + 1) < a ! i then a[i + 1 := a ! i] else a)"

definition forward_pass :: "int list \<Rightarrow> nat \<Rightarrow> int list" where
  "forward_pass a totalSlots = foldl forward_step a [0..<totalSlots - 1]"

text \<open>The second loop (lines 326 to 330):
  \<open>if a[i] < a[i+1] - 1: a[i] = a[i+1] - 1\<close> for \<open>i\<close> descending.\<close>

definition backward_step :: "int list \<Rightarrow> nat \<Rightarrow> int list" where
  "backward_step a i = (if a ! i < a ! (i + 1) - 1 then a[i := a ! (i + 1) - 1] else a)"

definition backward_pass :: "int list \<Rightarrow> nat \<Rightarrow> int list" where
  "backward_pass a totalSlots = foldl backward_step a (rev [0..<totalSlots - 1])"

text \<open>The third loop (lines 332 to 336), which stops at the first index it leaves alone.\<close>

function cap_lower :: "int list \<Rightarrow> nat \<Rightarrow> nat \<Rightarrow> int list" where
  "cap_lower a totalSlots i =
     (if i < totalSlots
      then (if a ! i > int i then cap_lower (a[i := int i]) totalSlots (Suc i) else a)
      else a)"
  by pat_completeness auto
termination
  by (relation "measure (\<lambda>(a, n, i). n - i)") auto

declare cap_lower.simps [simp del]

text \<open>The fourth loop (lines 338 to 342).\<close>

function cap_upper :: "int list \<Rightarrow> nat \<Rightarrow> nat \<Rightarrow> int list" where
  "cap_upper a totalSlots i =
     (if i < totalSlots
      then (if a ! i > int i + 1 then cap_upper (a[i := int i + 1]) totalSlots (Suc i) else a)
      else a)"
  by pat_completeness auto
termination
  by (relation "measure (\<lambda>(a, n, i). n - i)") auto

declare cap_upper.simps [simp del]

text \<open>The limits after the four loops.\<close>

definition propagated_lowerLimit :: "int list \<Rightarrow> nat \<Rightarrow> int list" where
  "propagated_lowerLimit lowerLimit totalSlots =
     cap_lower (backward_pass (forward_pass lowerLimit totalSlots) totalSlots) totalSlots 0"

definition propagated_upperLimit :: "int list \<Rightarrow> nat \<Rightarrow> int list" where
  "propagated_upperLimit upperLimit totalSlots =
     cap_upper (backward_pass (forward_pass upperLimit totalSlots) totalSlots) totalSlots 0"

text \<open>\<open>bs.argmax()\<close> on a Boolean array: the first index holding \<open>True\<close>, and \<open>0\<close> when
  there is none.\<close>

definition np_argmax_bool :: "bool list \<Rightarrow> nat" where
  "np_argmax_bool bs = (if True \<in> set bs then length (takeWhile Not bs) else 0)"

text \<open>\<open>a[k:] -= 1\<close>.\<close>

definition decrement_from :: "int list \<Rightarrow> nat \<Rightarrow> int list" where
  "decrement_from a k = take k a @ map (\<lambda>x. x - 1) (drop k a)"

text \<open>The body of the greedy loop (lines 353 to 361); the state is
  \<open>(lowerLimit, upperLimit, chargingProfile)\<close>, the limits with the leading \<open>0\<close>.\<close>

definition greedy_step ::
  "int list \<times> int list \<times> real list \<Rightarrow> nat \<Rightarrow> int list \<times> int list \<times> real list" where
  "greedy_step st slot =
     (let lowerLimit = fst st; upperLimit = fst (snd st); chargingProfile = snd (snd st)
      in if lowerLimit ! slot < upperLimit ! (slot + 1) \<and> lowerLimit ! slot < last lowerLimit
         then (let lowerSlot = np_argmax_bool (map (\<lambda>x. x > lowerLimit ! slot) lowerLimit);
                   upperSlot = np_argmax_bool
                                 (map (\<lambda>x. x = upperLimit ! (slot + 1)) upperLimit)
               in (decrement_from lowerLimit lowerSlot, decrement_from upperLimit upperSlot,
                   chargingProfile[slot := 1]))
         else st)"

text \<open>The greedy loop from the propagated limits; the result is \<open>chargingProfile\<close>.\<close>

definition greedy_chargingProfile :: "int list \<Rightarrow> int list \<Rightarrow> nat list \<Rightarrow> nat \<Rightarrow> real list" where
  "greedy_chargingProfile lowerLimit upperLimit cheapestOrder totalSlots =
     snd (snd (foldl greedy_step
                 (0 # lowerLimit, 0 # upperLimit, replicate totalSlots 0) cheapestOrder))"

text \<open>The local \<open>chargingProfile\<close> of \<open>Accumulator.calculateSmartDemand\<close>, from the
  charging rate, the starting charge, the capacity, the discharging rates per minute and
  \<open>cheapestOrder = numpy.argsort(priceProfile)\<close>.\<close>

definition smart_chargingProfile ::
  "real \<Rightarrow> real \<Rightarrow> real \<Rightarrow> real list \<Rightarrow> nat list \<Rightarrow> nat \<Rightarrow> real list" where
  "smart_chargingProfile chargingRate startingCharge capacity dischargingRates cheapestOrder
     totalSlots =
     (let lowerTarget = 0;
          upperTarget = capacity;
          dischargingSum = np_cumsum dischargingRates;
          lowerLimit = initial_lowerLimit lowerTarget startingCharge chargingRate dischargingSum;
          upperLimit = initial_upperLimit upperTarget startingCharge chargingRate totalSlots
                         dischargingSum
      in greedy_chargingProfile (propagated_lowerLimit lowerLimit totalSlots)
           (propagated_upperLimit upperLimit totalSlots) cheapestOrder totalSlots)"

text \<open>\<open>xs[i]\<close> for a Python index, which may be negative.\<close>

definition py_index :: "'a list \<Rightarrow> int \<Rightarrow> error + 'a" where
  "py_index xs i =
     (let n = int (length xs); j = (if i < 0 then n + i else i)
      in if 0 \<le> j \<and> j < n then Inr (xs ! nat j) else Inl IndexError)"

text \<open>The contract of \<open>numpy.argsort(a)\<close>: a permutation of the indices of \<open>a\<close> that lists
  the values in ascending order.\<close>

definition argsort_ok :: "real list \<Rightarrow> nat list \<Rightarrow> bool" where
  "argsort_ok a idx \<longleftrightarrow>
     length idx = length a \<and> distinct idx \<and> (\<forall>i \<in> set idx. i < length a) \<and>
     sorted (map (\<lambda>i. a ! i) idx)"

text \<open>\<open>Accumulator.calculateSmartDemand(fromDT, toDT)\<close>; \<open>argsort\<close> is \<open>numpy.argsort\<close>.\<close>

definition Accumulator_calculateSmartDemand ::
  "(real list \<Rightarrow> nat list) \<Rightarrow> accumulator \<Rightarrow> datetime \<Rightarrow> datetime \<Rightarrow> error + accumulator" where
  "Accumulator_calculateSmartDemand argsort a fromDT toDT =
     (let endMargin = oneDay;
          wantedSlots = minutesBetween fromDT toDT;
          totalSlots = minutesBetween fromDT (toDT + endMargin)
      in case Profile_get (acc_priceProfile a) fromDT (toDT + endMargin) of
           Inl e \<Rightarrow> Inl e
         | Inr priceProfile \<Rightarrow>
       (case Profile_get (acc_dischargingProfile a) fromDT (toDT + endMargin) of
           Inl e \<Rightarrow> Inl e
         | Inr dp \<Rightarrow>
           (let chargingRate = acc_chargingPower a / 60;
                dischargingRates = map (\<lambda>x. x / 60) dp;
                startingCharge = acc_smart_currentCharge a;
                dischargingSum = np_cumsum dischargingRates
            in if chargingRate = 0 then Inl NonFinite
               else
                 (let chargingProfile =
                        smart_chargingProfile chargingRate startingCharge (acc_capacity a)
                          dischargingRates (argsort priceProfile) (nat totalSlots)
                  in case py_index dischargingSum (wantedSlots - 1) of
                       Inl e \<Rightarrow> Inl e
                     | Inr discharged \<Rightarrow>
                         (let currentCharge =
                                startingCharge - discharged
                                + sum_list (py_slice chargingProfile 0 wantedSlots)
                                  * chargingRate;
                              powerProfile =
                                map (\<lambda>x. x * acc_chargingPower a)
                                  (py_slice chargingProfile 0 wantedSlots)
                          in case Profile_set (acc_smartDemand a) fromDT powerProfile of
                               Inl e \<Rightarrow> Inl e
                             | Inr d \<Rightarrow>
                                 Inr (a\<lparr>acc_smart_currentCharge := currentCharge,
                                        acc_smartDemand := d\<rparr>))))))"

text \<open>The number of chosen slots among the first \<open>k + 1\<close> minutes, and the simulated
  charge at the end of minute \<open>k\<close>.\<close>

definition onCount :: "real list \<Rightarrow> nat \<Rightarrow> real" where
  "onCount chargingProfile k = sum_list (take (Suc k) chargingProfile)"

definition simulated_charge :: "real \<Rightarrow> real \<Rightarrow> real list \<Rightarrow> real list \<Rightarrow> nat \<Rightarrow> real" where
  "simulated_charge startingCharge chargingRate dischargingRates chargingProfile k =
     startingCharge + onCount chargingProfile k * chargingRate
     - sum_list (take (Suc k) dischargingRates)"

section \<open>Notions the properties are stated with\<close>

text \<open>The electricity cost of a machine run that starts at \<open>startingSlot\<close>: the dot
  product of the usage profile with the prices from that slot on.  It is the value
  \<open>slotPrice\<close> returns whenever \<open>numpy.dot\<close> does not raise.\<close>

definition run_cost :: "real list \<Rightarrow> real list \<Rightarrow> nat \<Rightarrow> real" where
  "run_cost powerUsageProfile priceProfile startingSlot =
     sum_list (map2 (*) powerUsageProfile
       (py_slice priceProfile (int startingSlot)
          (int startingSlot + int (length powerUsageProfile))))"

text \<open>Every entry of the dictionary \<open>old\<close> is still there, unchanged, in \<open>new\<close>.\<close>

definition keeps :: "('k \<rightharpoonup> 'v) \<Rightarrow> ('k \<rightharpoonup> 'v) \<Rightarrow> bool" where
  "keeps old new \<longleftrightarrow> (\<forall>d \<in> dom old. new d = old d)"

text \<open>The calls an appliance receives from \<open>setUp\<close> and \<open>tick\<close>, in any order and over
  any intervals.\<close>

datatype call = GenerateUsage datetime datetime | CalculateDemand datetime datetime

definition Battery_call ::
  "'g random_module \<Rightarrow> batteryStatistics \<Rightarrow> (real list \<Rightarrow> nat \<Rightarrow> nat list) \<Rightarrow> battery \<times> 'g
   \<Rightarrow> call \<Rightarrow> error + battery \<times> 'g" where
  "Battery_call R stats argpartition bg c =
     (case c of
        GenerateUsage fromDT toDT \<Rightarrow> Battery_generateUsage R stats bg fromDT toDT
      | CalculateDemand fromDT toDT \<Rightarrow>
          (case Battery_calculateDemand argpartition (fst bg) fromDT toDT of
             Inl e \<Rightarrow> Inl e
           | Inr b \<Rightarrow> Inr (b, snd bg)))"

definition Machine_call ::
  "'g random_module \<Rightarrow> machineStatistics \<Rightarrow> machine \<times> 'g \<Rightarrow> call \<Rightarrow> error + machine \<times> 'g" where
  "Machine_call R stats mg c =
     (case c of
        GenerateUsage fromDT toDT \<Rightarrow> Machine_generateUsage R stats mg fromDT toDT
      | CalculateDemand fromDT toDT \<Rightarrow>
          (case Machine_calculateDemand (fst mg) fromDT toDT of
             Inl e \<Rightarrow> Inl e
           | Inr m \<Rightarrow> Inr (m, snd mg)))"

section \<open>Example inputs\<close>

definition example_random :: "unit random_module" where
  "example_random =
     \<lparr>rnd_random = (\<lambda>g. (0, g)), rnd_gauss = (\<lambda>mu sigma g. (mu, g)),
      rnd_index = (\<lambda>n g. (0, g))\<rparr>"

definition example_batteryStatistics :: batteryStatistics where
  "example_batteryStatistics =
     \<lparr>bs_usageProbabilities = (\<lambda>d. Some 1), bs_neededCharges = (\<lambda>d. Some [6]),
      bs_usageIntervals = (\<lambda>d. [])\<rparr>"

definition example_machineStatistics :: machineStatistics where
  "example_machineStatistics =
     \<lparr>ms_startAfterParameters = (1260, 60), ms_finishByParameters = (300, 60),
      ms_usageProbabilities = (\<lambda>d. Some 1), ms_usageProfiles = [[2, 1]]\<rparr>"

definition example_battery_usages :: "date \<rightharpoonup> battery_usage" where
  "example_battery_usages =
     [0 \<mapsto> ((\<lparr>hour = 23, minute = 59\<rparr>, \<lparr>hour = 18, minute = 0\<rparr>), 3)]"

definition example_battery :: battery where
  "example_battery =
     \<lparr>bat_chargingPower = 72 / 10, bat_usages = example_battery_usages,
      bat_priceProfile = Profile_empty, bat_smartDemand = Profile_empty,
      bat_uncontrolledDemand = Profile_empty, bat_spreadOutDemand = Profile_empty\<rparr>"

definition example_machine_usages :: "date \<rightharpoonup> machine_usage" where
  "example_machine_usages = [0 \<mapsto> None]"

definition example_machine :: machine where
  "example_machine =
     \<lparr>mach_usages = example_machine_usages, mach_priceProfile = Profile_empty,
      mach_smartDemand = Profile_empty, mach_uncontrolledDemand = Profile_empty,
      mach_spreadOutDemand = Profile_empty\<rparr>"

definition example_accumulator :: accumulator where
  "example_accumulator =
     \<lparr>acc_chargingPower = 60, acc_capacity = 5, acc_dischargingProfileScale = 1,
      acc_smart_currentCharge = 1 / 2, acc_uncontrolled_currentCharge = 5,
      acc_spreadOut_charging = False, acc_spreadOut_currentCharge = 1,
      acc_dischargingProfile = \<lparr>startingDT = Some 0, vals = [60, 120]\<rparr>,
      acc_priceProfile = Profile_empty, acc_smartDemand = Profile_empty,
      acc_uncontrolledDemand = Profile_empty, acc_spreadOutDemand = Profile_empty\<rparr>"



text \<open>The minutes of the mask that the interval for the sampled position \<open>c\<close> paints:
  \<open>cheapIntervalLength\<close> cells from the start of the interval, as far as the mask
  reaches.\<close>

definition interval_minutes :: "nat \<Rightarrow> nat \<Rightarrow> nat set" where
  "interval_minutes cheapIntervalLength c =
     (let cheapIntervalStart = nat (cheapIntervalStart_of cheapIntervalLength c)
      in {cheapIntervalStart ..<
          min (cheapIntervalStart + cheapIntervalLength)
              (minutesInDay + 2 * cheapIntervalLength)})"

text \<open>The minutes painted by the first \<open>n\<close> samples.\<close>

definition painted_minutes :: "nat \<Rightarrow> (nat \<Rightarrow> nat) \<Rightarrow> nat \<Rightarrow> nat set" where
  "painted_minutes cheapIntervalLength samples n =
     (\<Union>i<n. interval_minutes cheapIntervalLength (samples i))"

text \<open>The mask with ones at the positions in \<open>S\<close>.\<close>

definition mask_of :: "nat \<Rightarrow> nat set \<Rightarrow> real list" where
  "mask_of n S = map (\<lambda>j. if j \<in> S then 1 else 0) [0..<n]"




section \<open>Verification\<close>

lemma slice_index_le: "slice_index n i \<le> n"
  by (auto simp: slice_index_def)

lemma np_assign_slice_length:
  "np_assign_slice xs a b src = Inr ys \<Longrightarrow> length ys = length xs"
  using slice_index_le [of "length xs" a] slice_index_le [of "length xs" b]
  by (auto simp: np_assign_slice_def Let_def split: if_splits)

lemma Profile_get_length:
  "Profile_get p fromDT toDT = Inr xs \<Longrightarrow> length xs = nat (minutesBetween fromDT toDT)"
  by (auto simp: Profile_get_def np_zeros_def Let_def
           split: option.splits if_splits sum.splits dest!: np_assign_slice_length)

text \<open>Claim C3 (windowed reads concatenate, and minutes outside the stored range read as
  zero).  The source documents \<open>get\<close> as returning zeros where values are missing, but a
  window that starts before the anchor makes \<open>startIndex\<close> negative, and the slice
  \<open>values[startIndex:stopIndex]\<close> then counts from the end of the array.  For the profile
  anchored at minute 0 with values 1, 2, 3, the read of the minute from -2 to -1, which
  lies wholly before the anchor, returns the stored value 2 instead of zero.\<close>

theorem C3_get_before_anchor:
  "Profile_get \<lparr>startingDT = Some 0, vals = [1, 2, 3]\<rparr> (- 2) (- 1) = Inr [2]"
  by (simp add: Profile_get_def minutesBetween_def np_zeros_def np_assign_slice_def
        py_slice_def slice_index_def Let_def)

text \<open>Claim C4 (after \<open>set\<close>, \<open>add\<close> or \<open>transition\<close> at or after the anchor, the stored
  length is the maximum of the previous length and start offset plus new length).
  \<open>transition\<close> resizes the array to the new size before it looks at the overlap; when
  the new values start exactly at the end of the stored ones it then appends them to the
  array it has just enlarged.  For the profile with values 1, 2 anchored at minute 0, a
  transition to the one value 5 at minute 2 leaves four stored values, not three, and the
  new value at minute 3 instead of minute 2.\<close>

theorem C4_transition_at_end:
  "Profile_transition \<lparr>startingDT = Some 0, vals = [1, 2]\<rparr> 2 [5]
     = Inr \<lparr>startingDT = Some 0, vals = [1, 2, 0, 5]\<rparr>"
  by (simp add: Profile_transition_def minutesBetween_def np_resize_def Let_def)

lemma uncontrolled_step_le:
  "fst st \<le> cap \<Longrightarrow> 0 \<le> ds ! slot
   \<Longrightarrow> fst (uncontrolled_step r P cap ds st slot) \<le> cap"
  by (simp add: uncontrolled_step_def Let_def)

lemma uncontrolled_loop_le:
  "c \<le> cap \<Longrightarrow> \<forall>d \<in> set ds. 0 \<le> d \<Longrightarrow> k \<le> length ds
   \<Longrightarrow> fst (uncontrolled_loop r P cap ds c n k) \<le> cap"
proof (induction k)
  case 0
  then show ?case by (simp add: uncontrolled_loop_def)
next
  case (Suc k)
  then have "fst (uncontrolled_loop r P cap ds c n k) \<le> cap" by simp
  moreover have "0 \<le> ds ! k" using Suc.prems by simp
  ultimately show ?case
    using uncontrolled_step_le [of "uncontrolled_loop r P cap ds c n k" cap ds k r P]
    by (simp add: uncontrolled_loop_def)
qed

text \<open>Claim C9: in \<open>Accumulator.calculateUncontrolledDemand\<close>, when the stored charge is
  at most the capacity before the call and the discharging rates are not negative, the
  charge after every simulated minute is at most the capacity, and so is the charge the
  call stores.\<close>

theorem C9_uncontrolled_charge_bounded:
  assumes "acc_uncontrolled_currentCharge a \<le> acc_capacity a"
    and "Profile_get (acc_dischargingProfile a) fromDT toDT = Inr dp"
    and "\<forall>x \<in> set dp. 0 \<le> x"
  shows "(\<forall>k \<le> nat (minutesBetween fromDT toDT).
            fst (uncontrolled_loop (acc_chargingPower a / 60) (acc_chargingPower a)
                   (acc_capacity a) (map (\<lambda>x. x / 60) dp)
                   (acc_uncontrolled_currentCharge a) (nat (minutesBetween fromDT toDT)) k)
            \<le> acc_capacity a)
       \<and> (\<forall>a'. Accumulator_calculateUncontrolledDemand a fromDT toDT = Inr a'
              \<longrightarrow> acc_uncontrolled_currentCharge a' \<le> acc_capacity a')"
proof -
  have len: "length (map (\<lambda>x. x / 60) dp) = nat (minutesBetween fromDT toDT)"
    using Profile_get_length [OF assms(2)] by simp
  have nonneg: "\<forall>d \<in> set (map (\<lambda>x. x / 60) dp). 0 \<le> d"
    using assms(3) by simp
  have loop: "\<forall>k \<le> nat (minutesBetween fromDT toDT).
            fst (uncontrolled_loop (acc_chargingPower a / 60) (acc_chargingPower a)
                   (acc_capacity a) (map (\<lambda>x. x / 60) dp)
                   (acc_uncontrolled_currentCharge a) (nat (minutesBetween fromDT toDT)) k)
            \<le> acc_capacity a"
    using uncontrolled_loop_le [OF assms(1) nonneg] len by simp
  moreover have "\<forall>a'. Accumulator_calculateUncontrolledDemand a fromDT toDT = Inr a'
              \<longrightarrow> acc_uncontrolled_currentCharge a' \<le> acc_capacity a'"
    using loop assms(2)
    by (auto simp: Accumulator_calculateUncontrolledDemand_def Let_def split: sum.splits)
  ultimately show ?thesis by blast
qed

lemma py_slice_length:
  "0 \<le> a \<Longrightarrow> a \<le> b \<Longrightarrow> b \<le> int (length xs) \<Longrightarrow> length (py_slice xs a b) = nat (b - a)"
  by (auto simp: py_slice_def slice_index_def Let_def)

lemma slotPrice_ok:
  "s + length u \<le> length p \<Longrightarrow> slotPrice u p s = Inr (run_cost u p s)"
  using py_slice_length [of "int s" "int s + int (length u)" p]
  by (simp add: slotPrice_def np_dot_def run_cost_def)

lemma cheapest_search_min:
  assumes "\<forall>s \<in> set cands. slotPrice u p s = Inr (run_cost u p s)"
    and "\<forall>c. snd st = Some c \<longrightarrow> c = run_cost u p (fst st)"
  shows "\<exists>st'. cheapest_search u p cands st = Inr st' \<and>
           (\<forall>c. snd st = Some c \<longrightarrow> (\<exists>c'. snd st' = Some c' \<and> c' \<le> c)) \<and>
           (\<forall>s \<in> set cands. \<exists>c'. snd st' = Some c' \<and> c' \<le> run_cost u p s) \<and>
           (\<forall>c'. snd st' = Some c' \<longrightarrow> c' = run_cost u p (fst st')) \<and>
           (cands = [] \<longrightarrow> st' = st)"
  using assms
proof (induction cands arbitrary: st)
  case Nil
  then show ?case by simp
next
  case (Cons s cands)
  have sp: "slotPrice u p s = Inr (run_cost u p s)" using Cons.prems(1) by simp
  have rest: "\<forall>s \<in> set cands. slotPrice u p s = Inr (run_cost u p s)"
    using Cons.prems(1) by simp
  show ?case
  proof (cases "case snd st of None \<Rightarrow> True | Some c \<Rightarrow> run_cost u p s < c")
    case True
    let ?st1 = "(s, Some (run_cost u p s))"
    have inv1: "\<forall>c. snd ?st1 = Some c \<longrightarrow> c = run_cost u p (fst ?st1)" by simp
    from Cons.IH [OF rest inv1] obtain st' where
      st': "cheapest_search u p cands ?st1 = Inr st'"
        "\<forall>c. snd ?st1 = Some c \<longrightarrow> (\<exists>c'. snd st' = Some c' \<and> c' \<le> c)"
        "\<forall>s \<in> set cands. \<exists>c'. snd st' = Some c' \<and> c' \<le> run_cost u p s"
        "\<forall>c'. snd st' = Some c' \<longrightarrow> c' = run_cost u p (fst st')"
      by blast
    have run: "cheapest_search u p (s # cands) st = Inr st'"
      using True sp st'(1) by simp
    from st'(2) obtain c' where c': "snd st' = Some c'" "c' \<le> run_cost u p s" by auto
    have "\<forall>c. snd st = Some c \<longrightarrow> (\<exists>c'. snd st' = Some c' \<and> c' \<le> c)"
      using True c' by (auto split: option.splits)
    moreover have "\<forall>s' \<in> set (s # cands). \<exists>c'. snd st' = Some c' \<and> c' \<le> run_cost u p s'"
      using c' st'(3) by auto
    ultimately show ?thesis using run st'(4) by auto
  next
    case False
    then obtain c where c: "snd st = Some c" "c \<le> run_cost u p s"
      by (cases "snd st") auto
    from Cons.IH [OF rest Cons.prems(2)] obtain st' where
      st': "cheapest_search u p cands st = Inr st'"
        "\<forall>c. snd st = Some c \<longrightarrow> (\<exists>c'. snd st' = Some c' \<and> c' \<le> c)"
        "\<forall>s \<in> set cands. \<exists>c'. snd st' = Some c' \<and> c' \<le> run_cost u p s"
        "\<forall>c'. snd st' = Some c' \<longrightarrow> c' = run_cost u p (fst st')"
      by blast
    have run: "cheapest_search u p (s # cands) st = Inr st'"
      using False sp st'(1) c by simp
    from st'(2) c obtain c' where c': "snd st' = Some c'" "c' \<le> c" by auto
    have "\<forall>s' \<in> set (s # cands). \<exists>c'. snd st' = Some c' \<and> c' \<le> run_cost u p s'"
      using c c' st'(3) by auto
    then show ?thesis using run st'(2) st'(4) by auto
  qed
qed

text \<open>Claim C5: for a machine day with a usage, a valid finishing time and a two-day price
  window, the smart policy finds a starting slot, and the cost of the run from that slot
  is at most the cost of the run from \<open>startAfterSlot\<close>, where the uncontrolled policy
  starts it.\<close>

theorem C5_smart_cost_le_uncontrolled:
  assumes "valid_time finishBy" and "length priceProfile = 2 * minutesInDay"
  shows "\<exists>s. Machine_cheapestSlot startAfter finishBy powerUsageProfile priceProfile = Inr s
           \<and> run_cost powerUsageProfile priceProfile s
             \<le> run_cost powerUsageProfile priceProfile (Machine_uncontrolledSlot startAfter)"
proof (cases "int (finishBySlot_of finishBy) - int (startAfterSlot_of startAfter)
                > int (length powerUsageProfile)")
  case False
  then show ?thesis
    by (simp add: Machine_cheapestSlot_def Machine_uncontrolledSlot_def Let_def)
next
  case True
  let ?start = "startAfterSlot_of startAfter"
  let ?fin = "finishBySlot_of finishBy"
  let ?u = powerUsageProfile
  let ?cands = "[?start..<?fin - length ?u]"
  have fin: "?fin \<le> 2 * minutesInDay"
    using assms(1) by (simp add: finishBySlot_of_def valid_time_def minutesInDay_def)
  have ok: "\<forall>s \<in> set ?cands. slotPrice ?u priceProfile s = Inr (run_cost ?u priceProfile s)"
  proof
    fix s assume "s \<in> set ?cands"
    then have "s + length ?u \<le> length priceProfile" using fin assms(2) by auto
    then show "slotPrice ?u priceProfile s = Inr (run_cost ?u priceProfile s)"
      by (rule slotPrice_ok)
  qed
  have inv: "\<forall>c. snd (?start, None :: real option) = Some c
               \<longrightarrow> c = run_cost ?u priceProfile (fst (?start, None :: real option))"
    by simp
  from cheapest_search_min [OF ok inv] obtain st' where
    st': "cheapest_search ?u priceProfile ?cands (?start, None) = Inr st'"
      "\<forall>s \<in> set ?cands. \<exists>c'. snd st' = Some c' \<and> c' \<le> run_cost ?u priceProfile s"
      "\<forall>c'. snd st' = Some c' \<longrightarrow> c' = run_cost ?u priceProfile (fst st')"
    by blast
  have "?start \<in> set ?cands" using True by auto
  with st'(2) obtain c' where "snd st' = Some c'" "c' \<le> run_cost ?u priceProfile ?start"
    by blast
  with st'(3) have "run_cost ?u priceProfile (fst st') \<le> run_cost ?u priceProfile ?start"
    by auto
  then show ?thesis
    using True st'(1) by (simp add: Machine_cheapestSlot_def Machine_uncontrolledSlot_def Let_def)
qed

text \<open>Claim C8, amended: when there are four arguments, the date and both integers
  parse, and \<open>simulationLength\<close> or \<open>houseCount\<close> is negative, the argument check of
  \<open>run.py\<close> does not reject the arguments (it does not print the usage and call
  \<open>sys.exit(1)\<close>): it reaches the call
  \<open>Simulator.run(startingDate, max(0, simulationLength), max(0, houseCount), outputFolder)\<close>,
  so that a negative number is passed on as 0.\<close>

theorem C8_negative_clamped:
  assumes "length argv = 5" and "strptime_ymd (argv ! 1) = Some startingDate"
    and "py_int (argv ! 2) = Some len" and "py_int (argv ! 3) = Some cnt"
    and "len < 0 \<or> cnt < 0"
  shows "run_main argv = Simulator_run startingDate (max 0 len) (max 0 cnt) (argv ! 4)
         \<and> run_main argv \<noteq> Exit 1"
  using assms by (simp add: run_main_def Let_def)

text \<open>Claim C8 as stated fails: with \<open>simulationLength = -3\<close> the argument check
  passes and \<open>Simulator.run\<close> is called for 0 days.\<close>

theorem C8_counterexample:
  "py_int ''-3'' = Some (- 3)
   \<and> run_main [''run.py'', ''2018-07-01'', ''-3'', ''5'', ''out'']
       = Simulator_run (2018, 7, 1) 0 5 ''out''
   \<and> run_main [''run.py'', ''2018-07-01'', ''-3'', ''5'', ''out''] \<noteq> Exit 1"
  by (simp add: run_main_def py_int_def max_str_digits_def py_strip_def is_space_def
        is_digit_def digit_value_def strptime_ymd_def month_field_def day_field_def days_in_month_def is_leap_def Let_def)

lemma for_each_rel:
  assumes step: "\<And>s x s'. body s x = Inr s' \<Longrightarrow> Q s s'"
    and refl: "\<And>s. Q s s"
    and trans: "\<And>a b c. Q a b \<Longrightarrow> Q b c \<Longrightarrow> Q a c"
  shows "for_each body s xs = Inr s' \<Longrightarrow> Q s s'"
proof (induction xs arbitrary: s)
  case Nil
  then show ?case using refl by simp
next
  case (Cons x xs)
  then obtain s1 where s1: "body s x = Inr s1" "for_each body s1 xs = Inr s'"
    by (auto split: sum.splits)
  then show ?case using step [OF s1(1)] Cons.IH [OF s1(2)] trans by blast
qed

lemma keeps_refl: "keeps m m"
  by (simp add: keeps_def)

lemma keeps_trans: "keeps a b \<Longrightarrow> keeps b c \<Longrightarrow> keeps a c"
  by (auto simp: keeps_def dom_def)

lemma Battery_generateUsage_day_keeps:
  "Battery_generateUsage_day R stats st midnight = Inr st' \<Longrightarrow> keeps (fst st) (fst st')"
  by (auto simp: Battery_generateUsage_day_def Let_def keeps_def
           split: if_splits sum.splits prod.splits)

lemma Machine_generateUsage_day_keeps:
  "Machine_generateUsage_day R stats st midnight = Inr st' \<Longrightarrow> keeps (fst st) (fst st')"
  by (auto simp: Machine_generateUsage_day_def Let_def keeps_def
           split: if_splits sum.splits prod.splits option.splits)

lemma Battery_generateUsage_keeps:
  "Battery_generateUsage R stats bg fromDT toDT = Inr bg'
   \<Longrightarrow> keeps (bat_usages (fst bg)) (bat_usages (fst bg'))"
proof -
  assume a: "Battery_generateUsage R stats bg fromDT toDT = Inr bg'"
  then obtain st where st:
    "for_each (Battery_generateUsage_day R stats) (bat_usages (fst bg), snd bg)
       (midnightsBetween fromDT (toDT + oneDay)) = Inr st"
    "bg' = ((fst bg)\<lparr>bat_usages := fst st\<rparr>, snd st)"
    by (auto simp: Battery_generateUsage_def split: sum.splits)
  have "keeps (fst (bat_usages (fst bg), snd bg)) (fst st)"
    by (rule for_each_rel [where Q = "\<lambda>s s'. keeps (fst s) (fst s')", OF _ _ _ st(1)])
       (auto intro: Battery_generateUsage_day_keeps keeps_refl keeps_trans)
  then show ?thesis using st(2) by simp
qed

lemma Machine_generateUsage_keeps:
  "Machine_generateUsage R stats mg fromDT toDT = Inr mg'
   \<Longrightarrow> keeps (mach_usages (fst mg)) (mach_usages (fst mg'))"
proof -
  assume a: "Machine_generateUsage R stats mg fromDT toDT = Inr mg'"
  then obtain st where st:
    "for_each (Machine_generateUsage_day R stats) (mach_usages (fst mg), snd mg)
       (midnightsBetween fromDT toDT) = Inr st"
    "mg' = ((fst mg)\<lparr>mach_usages := fst st\<rparr>, snd st)"
    by (auto simp: Machine_generateUsage_def split: sum.splits)
  have "keeps (fst (mach_usages (fst mg), snd mg)) (fst st)"
    by (rule for_each_rel [where Q = "\<lambda>s s'. keeps (fst s) (fst s')", OF _ _ _ st(1)])
       (auto intro: Machine_generateUsage_day_keeps keeps_refl keeps_trans)
  then show ?thesis using st(2) by simp
qed

lemma Battery_calculateDemand_usages:
  "Battery_calculateDemand argpartition b fromDT toDT = Inr b' \<Longrightarrow> bat_usages b' = bat_usages b"
proof -
  have smart: "\<And>b b'. Battery_calculateSmartDemand argpartition b fromDT toDT = Inr b'
                 \<Longrightarrow> bat_usages b' = bat_usages b"
    unfolding Battery_calculateSmartDemand_def
    by (rule for_each_rel [where Q = "\<lambda>s s'. bat_usages s' = bat_usages s"])
       (auto simp: Battery_smart_day_def split: sum.splits)
  have unc: "\<And>b b'. Battery_calculateUncontrolledDemand b fromDT toDT = Inr b'
                 \<Longrightarrow> bat_usages b' = bat_usages b"
    unfolding Battery_calculateUncontrolledDemand_def
    by (rule for_each_rel [where Q = "\<lambda>s s'. bat_usages s' = bat_usages s"])
       (auto simp: Battery_uncontrolled_day_def split: sum.splits)
  have spr: "\<And>b b'. Battery_calculateSpreadOutDemand b fromDT toDT = Inr b'
                 \<Longrightarrow> bat_usages b' = bat_usages b"
    unfolding Battery_calculateSpreadOutDemand_def
    by (rule for_each_rel [where Q = "\<lambda>s s'. bat_usages s' = bat_usages s"])
       (auto simp: Battery_spreadOut_day_def split: sum.splits)
  assume "Battery_calculateDemand argpartition b fromDT toDT = Inr b'"
  then show ?thesis
    using smart unc spr by (auto simp: Battery_calculateDemand_def split: sum.splits)
qed

lemma Machine_calculateDemand_usages:
  "Machine_calculateDemand m fromDT toDT = Inr m' \<Longrightarrow> mach_usages m' = mach_usages m"
proof -
  have smart: "\<And>m m'. Machine_calculateSmartDemand m fromDT toDT = Inr m'
                 \<Longrightarrow> mach_usages m' = mach_usages m"
    unfolding Machine_calculateSmartDemand_def
    by (rule for_each_rel [where Q = "\<lambda>s s'. mach_usages s' = mach_usages s"])
       (auto simp: Machine_smart_day_def split: sum.splits option.splits)
  have unc: "\<And>m m'. Machine_calculateUncontrolledDemand m fromDT toDT = Inr m'
                 \<Longrightarrow> mach_usages m' = mach_usages m"
    unfolding Machine_calculateUncontrolledDemand_def
    by (rule for_each_rel [where Q = "\<lambda>s s'. mach_usages s' = mach_usages s"])
       (auto simp: Machine_uncontrolled_day_def split: sum.splits option.splits)
  have spr: "\<And>m m'. Machine_calculateSpreadOutDemand m fromDT toDT = Inr m'
                 \<Longrightarrow> mach_usages m' = mach_usages m"
    unfolding Machine_calculateSpreadOutDemand_def
    by (rule for_each_rel [where Q = "\<lambda>s s'. mach_usages s' = mach_usages s"])
       (auto simp: Machine_spreadOut_day_def split: sum.splits option.splits)
  assume "Machine_calculateDemand m fromDT toDT = Inr m'"
  then show ?thesis
    using smart unc spr by (auto simp: Machine_calculateDemand_def split: sum.splits)
qed

lemma Battery_call_keeps:
  "Battery_call R stats argpartition bg c = Inr bg'
   \<Longrightarrow> keeps (bat_usages (fst bg)) (bat_usages (fst bg'))"
  by (cases c)
     (auto simp: Battery_call_def keeps_refl split: sum.splits
           dest: Battery_generateUsage_keeps Battery_calculateDemand_usages)

lemma Machine_call_keeps:
  "Machine_call R stats mg c = Inr mg'
   \<Longrightarrow> keeps (mach_usages (fst mg)) (mach_usages (fst mg'))"
  by (cases c)
     (auto simp: Machine_call_def keeps_refl split: sum.splits
           dest: Machine_generateUsage_keeps Machine_calculateDemand_usages)

text \<open>Claim C10: over any sequence of \<open>generateUsage\<close> and \<open>calculateDemand\<close> calls of a
  battery or of a machine, every entry that is in \<open>memory.usages\<close> before the sequence is
  still there unchanged after it; the policy calculations only read the dictionary.\<close>

theorem C10_usages_write_once:
  "(for_each (Battery_call R bstats argpartition) bg calls = Inr bg'
      \<longrightarrow> keeps (bat_usages (fst bg)) (bat_usages (fst bg')))
   \<and> (for_each (Machine_call R mstats) mg calls' = Inr mg'
      \<longrightarrow> keeps (mach_usages (fst mg)) (mach_usages (fst mg')))"
proof (intro conjI impI)
  assume "for_each (Battery_call R bstats argpartition) bg calls = Inr bg'"
  then show "keeps (bat_usages (fst bg)) (bat_usages (fst bg'))"
    by (rule for_each_rel [where Q = "\<lambda>s s'. keeps (bat_usages (fst s)) (bat_usages (fst s'))",
          rotated 3])
       (auto intro: Battery_call_keeps keeps_refl keeps_trans)
next
  assume "for_each (Machine_call R mstats) mg calls' = Inr mg'"
  then show "keeps (mach_usages (fst mg)) (mach_usages (fst mg'))"
    by (rule for_each_rel [where Q = "\<lambda>s s'. keeps (mach_usages (fst s)) (mach_usages (fst s'))",
          rotated 3])
       (auto intro: Machine_call_keeps keeps_refl keeps_trans)
qed

lemma midnights_0_2880: "midnightsBetween 0 2880 = [0, 1440]"
  by (simp add: midnightsBetween_def oneDay_def midnights_loop.simps)

lemma midnights_0_1440: "midnightsBetween 0 1440 = [0]"
  by (simp add: midnightsBetween_def oneDay_def midnights_loop.simps)

text \<open>Two overlapping \<open>generateUsage\<close> calls on the example battery and the example
  machine: the entry of day 0 stays, the entry of day 1 is sampled once.\<close>

theorem C10_usages_write_once_witness:
  "for_each (Battery_call example_random example_batteryStatistics (\<lambda>xs k. []))
     (example_battery, ()) [GenerateUsage 0 1440, GenerateUsage 0 1440]
     = Inr (example_battery\<lparr>bat_usages := example_battery_usages
              (1 \<mapsto> ((\<lparr>hour = 23, minute = 59\<rparr>, \<lparr>hour = 0, minute = 0\<rparr>), 6))\<rparr>, ())
   \<and> keeps (bat_usages example_battery)
       (example_battery_usages
          (1 \<mapsto> ((\<lparr>hour = 23, minute = 59\<rparr>, \<lparr>hour = 0, minute = 0\<rparr>), 6)))
   \<and> for_each (Machine_call example_random example_machineStatistics)
       (example_machine, ()) [GenerateUsage 0 2880, GenerateUsage 0 1440]
     = Inr (example_machine\<lparr>mach_usages := example_machine_usages
              (1 \<mapsto> Some ((\<lparr>hour = 21, minute = 0\<rparr>, \<lparr>hour = 5, minute = 0\<rparr>), [2, 1]))\<rparr>, ())
   \<and> keeps (mach_usages example_machine)
       (example_machine_usages
          (1 \<mapsto> Some ((\<lparr>hour = 21, minute = 0\<rparr>, \<lparr>hour = 5, minute = 0\<rparr>), [2, 1])))"
proof -
  have h1: "for_each (Battery_call example_random example_batteryStatistics (\<lambda>xs k. []))
     (example_battery, ()) [GenerateUsage 0 1440, GenerateUsage 0 1440]
     = Inr (example_battery\<lparr>bat_usages := example_battery_usages
              (1 \<mapsto> ((\<lparr>hour = 23, minute = 59\<rparr>, \<lparr>hour = 0, minute = 0\<rparr>), 6))\<rparr>, ())"
    by (simp add: Battery_call_def Battery_generateUsage_def oneDay_def midnights_0_2880
          Battery_generateUsage_day_def date_of_def example_battery_def
          example_battery_usages_def randomUsageInterval_def randomNeededCharge_def
          random_choice_def example_random_def example_batteryStatistics_def Let_def)
  have h2: "for_each (Machine_call example_random example_machineStatistics)
       (example_machine, ()) [GenerateUsage 0 2880, GenerateUsage 0 1440]
     = Inr (example_machine\<lparr>mach_usages := example_machine_usages
              (1 \<mapsto> Some ((\<lparr>hour = 21, minute = 0\<rparr>, \<lparr>hour = 5, minute = 0\<rparr>), [2, 1]))\<rparr>, ())"
    by (simp add: Machine_call_def Machine_generateUsage_def midnights_0_2880 midnights_0_1440
          Machine_generateUsage_day_def date_of_def example_machine_def
          example_machine_usages_def randomStartAfter_def randomFinishBy_def time_of_sample_def
          minutesInDay_def
          random_choice_def example_random_def example_machineStatistics_def Let_def)
  show ?thesis
    using h1 h2
      C10_usages_write_once [of example_random example_batteryStatistics "\<lambda>xs k. []"
        "(example_battery, ())" "[GenerateUsage 0 1440, GenerateUsage 0 1440]"
        "(example_battery\<lparr>bat_usages := example_battery_usages
              (1 \<mapsto> ((\<lparr>hour = 23, minute = 59\<rparr>, \<lparr>hour = 0, minute = 0\<rparr>), 6))\<rparr>, ())"
        example_machineStatistics "(example_machine, ())"
        "[GenerateUsage 0 2880, GenerateUsage 0 1440]"
        "(example_machine\<lparr>mach_usages := example_machine_usages
              (1 \<mapsto> Some ((\<lparr>hour = 21, minute = 0\<rparr>, \<lparr>hour = 5, minute = 0\<rparr>), [2, 1]))\<rparr>, ())"]
    by simp
qed

text \<open>The hypotheses of C9 hold for the example accumulator over two minutes.\<close>

theorem C9_uncontrolled_charge_bounded_witness:
  "acc_uncontrolled_currentCharge example_accumulator \<le> acc_capacity example_accumulator
   \<and> Profile_get (acc_dischargingProfile example_accumulator) 0 2 = Inr [60, 120]
   \<and> (0::real) \<le> 60 \<and> (0::real) \<le> 120
   \<and> fst (uncontrolled_loop (acc_chargingPower example_accumulator / 60)
            (acc_chargingPower example_accumulator) (acc_capacity example_accumulator)
            (map (\<lambda>x. x / 60) [60, 120])
            (acc_uncontrolled_currentCharge example_accumulator)
            (nat (minutesBetween 0 2)) 2)
       \<le> acc_capacity example_accumulator"
proof -
  have h1: "acc_uncontrolled_currentCharge example_accumulator
              \<le> acc_capacity example_accumulator"
    by (simp add: example_accumulator_def)
  have h2: "Profile_get (acc_dischargingProfile example_accumulator) 0 2 = Inr [60, 120]"
    by (simp add: example_accumulator_def Profile_get_def minutesBetween_def np_zeros_def
          np_assign_slice_def py_slice_def slice_index_def Let_def numeral_2_eq_2)
  have h3: "\<forall>x \<in> set [60, 120 :: real]. 0 \<le> x" by simp
  have k: "2 \<le> nat (minutesBetween 0 2)" by (simp add: minutesBetween_def)
  show ?thesis
    using h1 h2 k C9_uncontrolled_charge_bounded [OF h1 h2 h3] by simp
qed

text \<open>The hypotheses of C5 hold for a two-minute run between 21:00 and 05:00 at a
  constant price.\<close>

theorem C5_smart_cost_le_uncontrolled_witness:
  "valid_time \<lparr>hour = 5, minute = 0\<rparr>
   \<and> length (replicate 2880 (1::real)) = 2 * minutesInDay
   \<and> (\<exists>s. Machine_cheapestSlot \<lparr>hour = 21, minute = 0\<rparr> \<lparr>hour = 5, minute = 0\<rparr> [2, 1]
              (replicate 2880 1) = Inr s
          \<and> run_cost [2, 1] (replicate 2880 1) s
            \<le> run_cost [2, 1] (replicate 2880 1)
                 (Machine_uncontrolledSlot \<lparr>hour = 21, minute = 0\<rparr>))"
proof -
  have h1: "valid_time \<lparr>hour = 5, minute = 0\<rparr>" by (simp add: valid_time_def)
  have h2: "length (replicate 2880 (1::real)) = 2 * minutesInDay"
    by (simp add: minutesInDay_def)
  show ?thesis
    using h1 h2 C5_smart_cost_le_uncontrolled [OF h1 h2, of "\<lparr>hour = 21, minute = 0\<rparr>" "[2, 1]"]
    by blast
qed

text \<open>The hypotheses of the amended C8 hold for the arguments of the counterexample.\<close>

theorem C8_negative_clamped_witness:
  "length [''run.py'', ''2018-07-01'', ''-3'', ''5'', ''out''] = 5
   \<and> strptime_ymd ([''run.py'', ''2018-07-01'', ''-3'', ''5'', ''out''] ! 1) = Some (2018, 7, 1)
   \<and> py_int ([''run.py'', ''2018-07-01'', ''-3'', ''5'', ''out''] ! 2) = Some (- 3)
   \<and> py_int ([''run.py'', ''2018-07-01'', ''-3'', ''5'', ''out''] ! 3) = Some 5
   \<and> ((- 3 :: int) < 0 \<or> (5::int) < 0)
   \<and> run_main [''run.py'', ''2018-07-01'', ''-3'', ''5'', ''out'']
       = Simulator_run (2018, 7, 1) (max 0 (- 3)) (max 0 5)
           ([''run.py'', ''2018-07-01'', ''-3'', ''5'', ''out''] ! 4)
   \<and> run_main [''run.py'', ''2018-07-01'', ''-3'', ''5'', ''out''] \<noteq> Exit 1"
proof -
  let ?argv = "[''run.py'', ''2018-07-01'', ''-3'', ''5'', ''out'']"
  have h1: "length ?argv = 5" by simp
  have h2: "strptime_ymd (?argv ! 1) = Some (2018, 7, 1)"
    by (simp add: strptime_ymd_def month_field_def day_field_def days_in_month_def is_leap_def
          is_digit_def digit_value_def Let_def)
  have h3: "py_int (?argv ! 2) = Some (- 3)"
    by (simp add: py_int_def max_str_digits_def py_strip_def is_space_def is_digit_def
          digit_value_def)
  have h4: "py_int (?argv ! 3) = Some 5"
    by (simp add: py_int_def max_str_digits_def py_strip_def is_space_def is_digit_def
          digit_value_def)
  have h5: "(- 3 :: int) < 0 \<or> (5::int) < 0" by simp
  show ?thesis
    using h1 h2 h3 h4 h5 C8_negative_clamped [OF h1 h2 h3 h4 h5] by blast
qed

lemma sum_list_update_real:
  "i < length xs \<Longrightarrow> sum_list (xs[i := v]) = sum_list xs - xs ! i + (v::real)"
  by (induction xs arbitrary: i) (auto split: nat.splits)

lemma np_put_sum:
  assumes "distinct idxs" and "\<forall>i \<in> set idxs. i < length xs \<and> xs ! i = 0"
  shows "\<exists>ys. np_put xs idxs v = Inr ys \<and> length ys = length xs
           \<and> sum_list ys = sum_list xs + real (length idxs) * v
           \<and> (\<forall>j < length xs. j \<notin> set idxs \<longrightarrow> ys ! j = xs ! j)"
  using assms
proof (induction idxs arbitrary: xs)
  case Nil
  then show ?case by simp
next
  case (Cons i idxs)
  let ?xs1 = "xs[i := v]"
  have i: "i < length xs" "xs ! i = 0" using Cons.prems(2) by auto
  have d: "distinct idxs" "i \<notin> set idxs" using Cons.prems(1) by auto
  have pre: "\<forall>j \<in> set idxs. j < length ?xs1 \<and> ?xs1 ! j = 0"
    using Cons.prems(2) d(2) by (auto simp: nth_list_update)
  from Cons.IH [OF d(1) pre] obtain ys where ys:
    "np_put ?xs1 idxs v = Inr ys" "length ys = length ?xs1"
    "sum_list ys = sum_list ?xs1 + real (length idxs) * v"
    "\<forall>j < length ?xs1. j \<notin> set idxs \<longrightarrow> ys ! j = ?xs1 ! j"
    by blast
  have "sum_list ys = sum_list xs + real (length (i # idxs)) * v"
    using ys(3) i by (simp add: sum_list_update_real algebra_simps)
  moreover have "\<forall>j < length xs. j \<notin> set (i # idxs) \<longrightarrow> ys ! j = xs ! j"
    using ys(4) by (auto simp: nth_list_update)
  ultimately show ?case using ys(1,2) i(1) by simp
qed


lemma sum_list_replicate_real: "sum_list (replicate n (v::real)) = real n * v"
  by (induction n) (simp_all add: algebra_simps)



lemma cheaper_loop_Some:
  assumes "cheaper_loop L0 Q0 s0 i0 msk0 = Some m0"
  shows "real Q0 \<le> sum_list m0 \<and> (\<exists>n. m0 = painted L0 s0 i0 msk0 n)"
proof (rule cheaper_loop.raw_induct
    [where P = "\<lambda>L Q s i msk m. real Q \<le> sum_list m \<and> (\<exists>n. m = painted L s i msk n)",
     OF _ assms], goal_cases)
  case (1 loop L Q s i msk m)
  show ?case
  proof (cases "sum_list msk < real Q")
    case True
    then have "loop L Q s (Suc i) (paint_interval L msk (s i)) = Some m"
      using 1(2) by simp
    from 1(1) [OF this] obtain n where
      "real Q \<le> sum_list m" "m = painted L s (Suc i) (paint_interval L msk (s i)) n"
      by blast
    then have "real Q \<le> sum_list m \<and> m = painted L s i msk (Suc n)" by simp
    then show ?thesis by blast
  next
    case False
    then have "m = painted L s i msk 0" "real Q \<le> sum_list m" using 1(2) by simp_all
    then show ?thesis by blast
  qed
qed

lemma cheaper_loop_terminates:
  "real Q \<le> sum_list (painted L s i msk n) \<Longrightarrow> \<exists>m. cheaper_loop L Q s i msk = Some m"
proof (induction n arbitrary: i msk)
  case 0
  then show ?case by (subst cheaper_loop.simps) simp
next
  case (Suc n)
  show ?case
  proof (cases "sum_list msk < real Q")
    case True
    from Suc.IH [of "Suc i" "paint_interval L msk (s i)"] Suc.prems
    obtain m where "cheaper_loop L Q s (Suc i) (paint_interval L msk (s i)) = Some m"
      by auto
    then show ?thesis using True by (subst cheaper_loop.simps) simp
  next
    case False
    then show ?thesis by (subst cheaper_loop.simps) simp
  qed
qed

lemma np_fill_slice_length: "length (np_fill_slice xs a b v) = length xs"
  by (auto simp: np_fill_slice_def slice_index_def Let_def)

lemma np_fill_slice_nth:
  assumes "j < length xs" and "0 \<le> a" and "0 \<le> b"
  shows "np_fill_slice xs a b v ! j = (if a \<le> int j \<and> int j < b then v else xs ! j)"
proof -
  define lo where "lo = min (length xs) (nat a)"
  define m where "m = min (length xs) (nat b) - lo"
  have e: "np_fill_slice xs a b v = take lo xs @ replicate m v @ drop (lo + m) xs"
    using assms(2,3) by (simp add: np_fill_slice_def slice_index_def Let_def lo_def m_def)
  consider "j < lo" | "lo \<le> j" "j < lo + m" | "lo + m \<le> j" by linarith
  then show ?thesis
  proof cases
    case 1
    then show ?thesis using assms by (auto simp: e nth_append lo_def)
  next
    case 2
    then show ?thesis using assms by (auto simp: e nth_append lo_def m_def)
  next
    case 3
    have lo_le: "lo \<le> length xs" by (simp add: lo_def)
    have "(take lo xs @ replicate m v @ drop (lo + m) xs) ! j
            = (replicate m v @ drop (lo + m) xs) ! (j - lo)"
      using 3 lo_le by (simp add: nth_append)
    also have "\<dots> = drop (lo + m) xs ! (j - lo - m)"
    proof -
      have "\<not> j - lo < length (replicate m v)" using 3 by simp
      then show ?thesis by (simp only: nth_append if_False length_replicate)
    qed
    also have "\<dots> = xs ! (lo + m + (j - lo - m))"
      using 3 assms(1) by (intro nth_drop) simp
    also have "lo + m + (j - lo - m) = j" using 3 by simp
    finally have "(take lo xs @ replicate m v @ drop (lo + m) xs) ! j = xs ! j" .
    moreover have "\<not> (a \<le> int j \<and> int j < b)"
      using 3 assms by (auto simp: lo_def m_def)
    ultimately show ?thesis by (simp only: e if_False)
  qed
qed

lemma paint_mask_of:
  "paint_interval L (mask_of (minutesInDay + 2 * L) S) c
     = mask_of (minutesInDay + 2 * L) (S \<union> interval_minutes L c)"
proof -
  define a where "a = nat (cheapIntervalStart_of L c)"
  have "L div 2 \<le> L + c" by (simp add: trans_le_add1)
  then have "int (L div 2) \<le> int L + int c" by linarith
  then have a: "cheapIntervalStart_of L c = int a"
    by (simp add: a_def cheapIntervalStart_of_def)
  have p: "paint_interval L (mask_of (minutesInDay + 2 * L) S) c
             = np_fill_slice (mask_of (minutesInDay + 2 * L) S) (int a) (int a + int L) 1"
    by (simp add: paint_interval_def Let_def a)
  show ?thesis
    unfolding p
    by (rule nth_equalityI)
       (auto simp: np_fill_slice_length np_fill_slice_nth mask_of_def interval_minutes_def
          Let_def a_def [symmetric])
qed

lemma painted_mask_of:
  "painted L s i (mask_of (minutesInDay + 2 * L) S) n
     = mask_of (minutesInDay + 2 * L) (S \<union> (\<Union>k<n. interval_minutes L (s (i + k))))"
proof (induction n arbitrary: i S)
  case 0
  then show ?case by simp
next
  case (Suc n)
  have "(\<Union>k<Suc n. interval_minutes L (s (i + k)))
          = interval_minutes L (s i) \<union> (\<Union>k<n. interval_minutes L (s (Suc i + k)))"
    by (auto simp: less_Suc_eq_0_disj)
  then show ?case
    by (simp add: paint_mask_of Suc.IH Un_assoc)
qed

lemma sum_list_mask_of: "sum_list (mask_of n S) = real (card (S \<inter> {..<n}))"
proof -
  have "sum_list (mask_of n S) = (\<Sum>j\<in>{..<n}. if j \<in> S then 1 else 0)"
    by (simp add: mask_of_def interv_sum_list_conv_sum_set_nat atLeast0LessThan)
  also have "\<dots> = real (card (S \<inter> {..<n}))"
    by (simp add: sum.If_cases Int_commute)
  finally show ?thesis .
qed

lemma interval_minutes_bound: "interval_minutes L c \<subseteq> {..<minutesInDay + 2 * L}"
  by (auto simp: interval_minutes_def Let_def)

lemma painted_minutes_bound: "painted_minutes L s n \<subseteq> {..<minutesInDay + 2 * L}"
  using interval_minutes_bound by (auto simp: painted_minutes_def)

lemma sum_list_painted:
  "sum_list (painted L s 0 (replicate (minutesInDay + 2 * L) 0) n)
     = real (card (painted_minutes L s n))"
proof -
  have z: "replicate (minutesInDay + 2 * L) (0::real) = mask_of (minutesInDay + 2 * L) {}"
    by (simp add: mask_of_def map_replicate_const)
  have "painted_minutes L s n \<inter> {..<minutesInDay + 2 * L} = painted_minutes L s n"
    using painted_minutes_bound [of L s n] by blast
  then show ?thesis
    by (simp add: z painted_mask_of sum_list_mask_of painted_minutes_def)
qed

lemma cheaper_loop_result:
  "(\<exists>m. cheaper_loop L Q s 0 (replicate (minutesInDay + 2 * L) 0) = Some m)
     \<longleftrightarrow> (\<exists>n. Q \<le> card (painted_minutes L s n))"
proof
  assume "\<exists>m. cheaper_loop L Q s 0 (replicate (minutesInDay + 2 * L) 0) = Some m"
  then obtain m where "cheaper_loop L Q s 0 (replicate (minutesInDay + 2 * L) 0) = Some m"
    by blast
  from cheaper_loop_Some [OF this] obtain n where
    "real Q \<le> sum_list (painted L s 0 (replicate (minutesInDay + 2 * L) 0) n)"
    by auto
  then show "\<exists>n. Q \<le> card (painted_minutes L s n)"
    by (auto simp: sum_list_painted)
next
  assume "\<exists>n. Q \<le> card (painted_minutes L s n)"
  then obtain n where "real Q \<le> sum_list (painted L s 0 (replicate (minutesInDay + 2 * L) 0) n)"
    by (auto simp: sum_list_painted)
  then show "\<exists>m. cheaper_loop L Q s 0 (replicate (minutesInDay + 2 * L) 0) = Some m"
    by (rule cheaper_loop_terminates)
qed

lemma cheaper_loop_None:
  "(\<forall>n. card (painted_minutes L s n) < Q)
   \<Longrightarrow> cheaper_loop L Q s 0 (replicate (minutesInDay + 2 * L) 0) = None"
  using cheaper_loop_result [of L Q s]
  by (cases "cheaper_loop L Q s 0 (replicate (minutesInDay + 2 * L) 0)")
     (auto simp: not_le [symmetric])

lemma spaced_samples_cover:
  assumes "\<forall>i<k. s i < minutesInDay"
    and "\<forall>i<k. \<forall>j<k. i \<noteq> j \<longrightarrow> s i + L \<le> s j \<or> s j + L \<le> s i"
  shows "card (painted_minutes L s k) = k * L"
proof -
  define d where "d = L - L div 2"
  have d: "d \<le> L" by (simp add: d_def)
  have iv: "interval_minutes L (s i) = {s i + d ..< s i + d + L}" if "i < k" for i
  proof -
    have "s i < minutesInDay" using assms(1) that by simp
    moreover have "nat (cheapIntervalStart_of L (s i)) = s i + d"
      unfolding d_def
      by (simp add: cheapIntervalStart_of_def zdiv_int nat_diff_distrib nat_add_distrib
            nat_div_distrib)
    ultimately show ?thesis
      using d by (auto simp: interval_minutes_def Let_def)
  qed
  have "card (\<Union>i\<in>{..<k}. interval_minutes L (s i))
          = (\<Sum>i\<in>{..<k}. card (interval_minutes L (s i)))"
  proof (rule card_UN_disjoint)
    show "finite {..<k}" by simp
    show "\<forall>i\<in>{..<k}. finite (interval_minutes L (s i))"
      by (simp add: interval_minutes_def Let_def)
    show "\<forall>i\<in>{..<k}. \<forall>j\<in>{..<k}. i \<noteq> j \<longrightarrow>
            interval_minutes L (s i) \<inter> interval_minutes L (s j) = {}"
    proof (intro ballI impI)
      fix i j assume ij: "i \<in> {..<k}" "j \<in> {..<k}" "i \<noteq> j"
      then have "s i + L \<le> s j \<or> s j + L \<le> s i" using assms(2) by simp
      then show "interval_minutes L (s i) \<inter> interval_minutes L (s j) = {}"
        using ij iv by auto
    qed
  qed
  also have "\<dots> = (\<Sum>i\<in>{..<k}. L)"
    by (rule sum.cong) (auto simp: iv)
  finally show ?thesis by (simp add: painted_minutes_def)
qed

lemma painted_minutes_constant:
  "card (painted_minutes L (\<lambda>i. c) n) \<le> card (interval_minutes L c)"
proof -
  have "painted_minutes L (\<lambda>i. c) n \<subseteq> interval_minutes L c"
    by (auto simp: painted_minutes_def)
  moreover have "finite (interval_minutes L c)"
    by (simp add: interval_minutes_def Let_def)
  ultimately show ?thesis by (rule card_mono [rotated])
qed

lemma example_interval: "interval_minutes 2 720 = {721..<723}"
  by (simp add: interval_minutes_def cheapIntervalStart_of_def minutesInDay_def Let_def)

lemma example_never_three: "\<forall>n. card (painted_minutes 2 (\<lambda>i. 720) n) < 3"
proof
  fix n
  have "card (painted_minutes 2 (\<lambda>i. 720) n) \<le> card (interval_minutes 2 720)"
    by (rule painted_minutes_constant)
  then show "card (painted_minutes 2 (\<lambda>i. 720) n) < 3"
    by (simp add: example_interval)
qed

lemma example_two_painted: "card (painted_minutes 2 (\<lambda>i. 720) 1) = 2"
proof -
  have "painted_minutes 2 (\<lambda>i. 720) 1 = interval_minutes 2 720"
    by (auto simp: painted_minutes_def)
  then show ?thesis by (simp add: example_interval)
qed

text \<open>Claim C6, amended.  For a day realised with \<open>cheapMinutesCount = Q\<close>: when
  \<open>cheapIntervalLength\<close> is 1 and the sampling without replacement returns \<open>Q\<close> different
  positions of the day, a mask is produced and it has exactly \<open>Q\<close> ones.  For any other
  interval length \<open>L\<close>, a mask is produced, and it sums to at least \<open>Q\<close>, as soon as
  the intervals of some finite number of successive samples cover \<open>Q\<close> different minutes;
  this is the case when \<open>k\<close> samples of the day lie pairwise at least \<open>L\<close> apart and
  \<open>Q \<le> k * L\<close>.  When no finite number of samples covers \<open>Q\<close> minutes, the loop does not
  end and no mask is produced.\<close>

theorem C6_cheap_minutes_count:
  "(choice_without_replacement_ok minutesInDay Q positions
      \<longrightarrow> (\<exists>m. cheaperIntervals_of_day 1 Q positions samples = Some (Inr m)
                \<and> sum_list m = real Q))
   \<and> (L \<noteq> 1 \<and> (\<exists>n. Q \<le> card (painted_minutes L samples n))
      \<longrightarrow> (\<exists>m. cheaperIntervals_of_day L Q positions samples = Some (Inr m)
                \<and> real Q \<le> sum_list m))
   \<and> (L \<noteq> 1 \<and> (\<forall>i<k. samples i < minutesInDay)
        \<and> (\<forall>i<k. \<forall>j<k. i \<noteq> j
               \<longrightarrow> samples i + L \<le> samples j \<or> samples j + L \<le> samples i)
        \<and> Q \<le> k * L
      \<longrightarrow> (\<exists>m. cheaperIntervals_of_day L Q positions samples = Some (Inr m)
                \<and> real Q \<le> sum_list m))
   \<and> (L \<noteq> 1 \<and> (\<forall>n. card (painted_minutes L samples n) < Q)
      \<longrightarrow> cheaperIntervals_of_day L Q positions samples = None)"
proof -
  have one: "\<exists>m. cheaperIntervals_of_day 1 Q positions samples = Some (Inr m)
                \<and> sum_list m = real Q"
    if ok: "choice_without_replacement_ok minutesInDay Q positions"
  proof -
    let ?zeros = "replicate (minutesInDay + 2 * 1) (0::real)"
    have d: "distinct positions" and len: "length positions = Q"
      and lt: "\<forall>i \<in> set positions. i < minutesInDay"
      using ok by (auto simp: choice_without_replacement_ok_def)
    have r: "\<forall>i \<in> set positions. i < length ?zeros \<and> ?zeros ! i = 0"
    proof
      fix i assume "i \<in> set positions"
      then have "i < minutesInDay + 2 * 1" using lt by auto
      then show "i < length ?zeros \<and> ?zeros ! i = 0"
        by (simp only: length_replicate nth_replicate)
    qed
    from np_put_sum [OF d r, of 1] obtain m where
      "np_put ?zeros positions 1 = Inr m"
      "sum_list m = sum_list ?zeros + real (length positions) * 1"
      by blast
    then show ?thesis
      using len by (simp add: cheaperIntervals_of_day_def sum_list_replicate_real)
  qed
  have covered: "\<exists>m. cheaperIntervals_of_day L Q positions samples = Some (Inr m)
                \<and> real Q \<le> sum_list m"
    if L: "L \<noteq> 1" and c: "\<exists>n. Q \<le> card (painted_minutes L samples n)"
  proof -
    from c cheaper_loop_result [of L Q samples] obtain m where
      m: "cheaper_loop L Q samples 0 (replicate (minutesInDay + 2 * L) 0) = Some m"
      by blast
    from cheaper_loop_Some [OF m] have "real Q \<le> sum_list m" by simp
    then show ?thesis using L m by (simp add: cheaperIntervals_of_day_def)
  qed
  have spaced: "\<exists>m. cheaperIntervals_of_day L Q positions samples = Some (Inr m)
                \<and> real Q \<le> sum_list m"
    if L: "L \<noteq> 1" and a: "\<forall>i<k. samples i < minutesInDay"
      and b: "\<forall>i<k. \<forall>j<k. i \<noteq> j
               \<longrightarrow> samples i + L \<le> samples j \<or> samples j + L \<le> samples i"
      and q: "Q \<le> k * L"
  proof -
    have "Q \<le> card (painted_minutes L samples k)"
      using spaced_samples_cover [OF a b] q by simp
    then show ?thesis using covered [OF L] by blast
  qed
  have never: "cheaperIntervals_of_day L Q positions samples = None"
    if L: "L \<noteq> 1" and n: "\<forall>n. card (painted_minutes L samples n) < Q"
    using L cheaper_loop_None [OF n] by (simp add: cheaperIntervals_of_day_def)
  show ?thesis
    using one covered spaced never by blast
qed

text \<open>Claim C6 as stated fails for interval length 2 and \<open>Q = 3\<close> when every sample is
  the same minute (as it is when one entry of the probability window is not zero): the
  loop paints the same two minutes again and again and produces no mask.\<close>

theorem C6_counterexample:
  "(0::nat) < 3 \<and> (1::nat) < 2 \<and> (720::nat) < minutesInDay
   \<and> cheaperIntervals_of_day 2 3 [] (\<lambda>i. 720) = None"
  using cheaper_loop_None [OF example_never_three]
  by (simp add: cheaperIntervals_of_day_def minutesInDay_def)

text \<open>The hypotheses of the amended C6 hold for two cheap minutes: the positions 5 and 7
  for interval length 1, and one sample at minute 720 for interval length 2; for three
  cheap minutes the same samples never cover enough.\<close>

theorem C6_cheap_minutes_count_witness:
  "choice_without_replacement_ok minutesInDay 2 [5, 7]
   \<and> (\<exists>m. cheaperIntervals_of_day 1 2 [5, 7] (\<lambda>i. 720) = Some (Inr m)
            \<and> sum_list m = real 2)
   \<and> (2::nat) \<noteq> 1
   \<and> 2 \<le> card (painted_minutes 2 (\<lambda>i. 720) 1)
   \<and> (720::nat) < minutesInDay
   \<and> (2::nat) \<le> 1 * 2
   \<and> (\<exists>m. cheaperIntervals_of_day 2 2 [5, 7] (\<lambda>i. 720) = Some (Inr m)
            \<and> real 2 \<le> sum_list m)
   \<and> (\<forall>n. card (painted_minutes 2 (\<lambda>i. 720) n) < 3)
   \<and> cheaperIntervals_of_day 2 3 [5, 7] (\<lambda>i. 720) = None"
proof -
  have h1: "choice_without_replacement_ok minutesInDay 2 [5, 7]"
    by (simp add: choice_without_replacement_ok_def minutesInDay_def)
  have h2: "(2::nat) \<noteq> 1" by simp
  have h3: "\<exists>n. 2 \<le> card (painted_minutes 2 (\<lambda>i. 720) n)"
    using example_two_painted by (intro exI [of _ 1]) simp
  have h4: "(720::nat) < minutesInDay" by (simp add: minutesInDay_def)
  note h5 = example_never_three
  show ?thesis
    using h1 h2 h3 h4 h5 example_two_painted
      C6_cheap_minutes_count [of 2 "[5, 7]" "\<lambda>i. 720" 2 1]
      C6_cheap_minutes_count [of 3 "[5, 7]" "\<lambda>i. 720" 2 1]
    by simp
qed






































text \<open>With a positive expected consumption and a non-empty window the adjustment of
  lines 150 to 161 divides by no zero: the scaling branch is taken only when the integral
  of the raw target is at least the expected consumption.\<close>

lemma adjust_targetDemand_returns:
  assumes "0 < E" and "0 < n"
  shows "\<exists>T'. adjust_targetDemand E T n = Inr T'"
  using assms by (auto simp: adjust_targetDemand_def Let_def)

lemma with_error_pos: "0 < E0 \<Longrightarrow> 0 \<le> u \<Longrightarrow> 0 < with_error E0 u"
  by (simp add: with_error_def add_pos_nonneg)

end
